theory Spec2Isabelle
  imports Complex_Main
begin

section \<open>Numbers, vectors and matrices\<close>

text \<open>
  The cascaded shadow code computes with JavaScript numbers. They are modelled as
  real numbers: every formula below is the formula of the source read over the
  reals, without rounding, infinities or NaN. Counts and array indices are natural
  numbers.

  \<^verbatim>\<open>Vector2\<close>, \<^verbatim>\<open>Vector3\<close>, \<^verbatim>\<open>Matrix4\<close> and \<^verbatim>\<open>Box3\<close> are the
  three.js classes the source imports; their methods are written here as three.js
  (release r169, the one the source refers to) defines them. A \<^verbatim>\<open>Matrix4\<close> is
  its \<^verbatim>\<open>elements\<close> array, sixteen numbers in column-major order: \<open>te0 m\<close> is
  \<^verbatim>\<open>m.elements[0]\<close>. The source mutates these objects in place; the model
  returns the new value.
\<close>

datatype Vector2 = Vector2 (v2x: real) (v2y: real)

datatype Vector3 = Vector3 (vx: real) (vy: real) (vz: real)

datatype Matrix4 = Matrix4
  (te0: real) (te1: real) (te2: real) (te3: real)
  (te4: real) (te5: real) (te6: real) (te7: real)
  (te8: real) (te9: real) (te10: real) (te11: real)
  (te12: real) (te13: real) (te14: real) (te15: real)

text \<open>\<^verbatim>\<open>new Vector2()\<close> is the zero vector and \<^verbatim>\<open>new Matrix4()\<close> is the identity.\<close>

definition Vector2_new :: Vector2 where
  "Vector2_new = Vector2 0 0"

definition Matrix4_new :: Matrix4 where
  "Matrix4_new = Matrix4 1 0 0 0  0 1 0 0  0 0 1 0  0 0 0 1"

definition Matrix4_zero :: Matrix4 where
  "Matrix4_zero = Matrix4 0 0 0 0  0 0 0 0  0 0 0 0  0 0 0 0"

text \<open>\<^verbatim>\<open>Object3D.DEFAULT_UP\<close>.\<close>

definition DEFAULT_UP :: Vector3 where
  "DEFAULT_UP = Vector3 0 1 0"

subsection \<open>Vector3\<close>

definition setScalar :: "real \<Rightarrow> Vector3" where
  "setScalar s = Vector3 s s s"

definition multiplyScalar :: "Vector3 \<Rightarrow> real \<Rightarrow> Vector3" where
  "multiplyScalar v s = Vector3 (vx v * s) (vy v * s) (vz v * s)"

definition addVectors :: "Vector3 \<Rightarrow> Vector3 \<Rightarrow> Vector3" where
  "addVectors a b = Vector3 (vx a + vx b) (vy a + vy b) (vz a + vz b)"

definition subVectors :: "Vector3 \<Rightarrow> Vector3 \<Rightarrow> Vector3" where
  "subVectors a b = Vector3 (vx a - vx b) (vy a - vy b) (vz a - vz b)"

definition dot :: "Vector3 \<Rightarrow> Vector3 \<Rightarrow> real" where
  "dot a b = vx a * vx b + vy a * vy b + vz a * vz b"

definition crossVectors :: "Vector3 \<Rightarrow> Vector3 \<Rightarrow> Vector3" where
  "crossVectors a b = Vector3
     (vy a * vz b - vz a * vy b)
     (vz a * vx b - vx a * vz b)
     (vx a * vy b - vy a * vx b)"

definition lengthSq :: "Vector3 \<Rightarrow> real" where
  "lengthSq v = vx v * vx v + vy v * vy v + vz v * vz v"

definition vlength :: "Vector3 \<Rightarrow> real" where
  "vlength v = sqrt (lengthSq v)"

text \<open>\<^verbatim>\<open>normalize()\<close> is \<^verbatim>\<open>divideScalar(length() || 1)\<close>: a zero vector stays zero.\<close>

definition divideScalar :: "Vector3 \<Rightarrow> real \<Rightarrow> Vector3" where
  "divideScalar v s = multiplyScalar v (1 / s)"

definition normalize3 :: "Vector3 \<Rightarrow> Vector3" where
  "normalize3 v = divideScalar v (if vlength v = 0 then 1 else vlength v)"

definition distanceToSquared :: "Vector3 \<Rightarrow> Vector3 \<Rightarrow> real" where
  "distanceToSquared a b =
     (let dx = vx a - vx b; dy = vy a - vy b; dz = vz a - vz b
      in dx * dx + dy * dy + dz * dz)"

definition distanceTo :: "Vector3 \<Rightarrow> Vector3 \<Rightarrow> real" where
  "distanceTo a b = sqrt (distanceToSquared a b)"

definition vmin :: "Vector3 \<Rightarrow> Vector3 \<Rightarrow> Vector3" where
  "vmin a b = Vector3 (min (vx a) (vx b)) (min (vy a) (vy b)) (min (vz a) (vz b))"

definition vmax :: "Vector3 \<Rightarrow> Vector3 \<Rightarrow> Vector3" where
  "vmax a b = Vector3 (max (vx a) (vx b)) (max (vy a) (vy b)) (max (vz a) (vz b))"

definition lerpVectors :: "Vector3 \<Rightarrow> Vector3 \<Rightarrow> real \<Rightarrow> Vector3" where
  "lerpVectors a b t = Vector3
     (vx a + (vx b - vx a) * t) (vy a + (vy b - vy a) * t) (vz a + (vz b - vz a) * t)"

text \<open>\<^verbatim>\<open>Vector3.applyMatrix4\<close>, with its perspective divide.\<close>

definition applyMatrix4 :: "Vector3 \<Rightarrow> Matrix4 \<Rightarrow> Vector3" where
  "applyMatrix4 v m =
     (let x = vx v; y = vy v; z = vz v;
          w = 1 / (te3 m * x + te7 m * y + te11 m * z + te15 m)
      in Vector3
           ((te0 m * x + te4 m * y + te8 m * z + te12 m) * w)
           ((te1 m * x + te5 m * y + te9 m * z + te13 m) * w)
           ((te2 m * x + te6 m * y + te10 m * z + te14 m) * w))"

text \<open>\<^verbatim>\<open>Math.round\<close> rounds to the nearest integer, a half towards plus infinity.\<close>

definition Math_round :: "real \<Rightarrow> real" where
  "Math_round x = of_int \<lfloor>x + 1 / 2\<rfloor>"

subsection \<open>Box3\<close>

text \<open>
  An empty box has its minimum at plus infinity and its maximum at minus infinity;
  the model has a constructor for it, and the bounds of an empty box are left
  unspecified. The source reads the bounds only after eight points were added.
\<close>

datatype Box3 = EmptyBox | Box3 (box_min: Vector3) (box_max: Vector3)

definition makeEmpty :: Box3 where
  "makeEmpty = EmptyBox"

fun expandByPoint :: "Box3 \<Rightarrow> Vector3 \<Rightarrow> Box3" where
  "expandByPoint EmptyBox p = Box3 p p"
| "expandByPoint (Box3 lo hi) p = Box3 (vmin lo p) (vmax hi p)"

fun getCenter :: "Box3 \<Rightarrow> Vector3" where
  "getCenter EmptyBox = Vector3 0 0 0"
| "getCenter (Box3 lo hi) = multiplyScalar (addVectors lo hi) 0.5"

subsection \<open>Matrix4\<close>

text \<open>\<^verbatim>\<open>makeOrthographic\<close> in the WebGL coordinate system (the default).\<close>

definition makeOrthographic ::
  "real \<Rightarrow> real \<Rightarrow> real \<Rightarrow> real \<Rightarrow> real \<Rightarrow> real \<Rightarrow> Matrix4" where
  "makeOrthographic left right top' bottom near far =
     (let w = 1 / (right - left);
          h = 1 / (top' - bottom);
          p = 1 / (far - near);
          x = (right + left) * w;
          y = (top' + bottom) * h;
          z = (far + near) * p;
          zInv = - 2 * p
      in Matrix4 (2 * w) 0 0 0
                 0 (2 * h) 0 0
                 0 0 zInv 0
                 (- x) (- y) (- z) 1)"

text \<open>
  \<^verbatim>\<open>lookAt(eye, target, up)\<close> writes the rotation whose third column is the
  normalized \<^verbatim>\<open>eye - target\<close> into the upper left 3x3 block of the receiver
  \<open>m\<close> and leaves the other seven elements as they are.
\<close>

definition lookAt_z :: "Vector3 \<Rightarrow> Vector3 \<Rightarrow> Vector3" where
  "lookAt_z eye target =
     (let z = subVectors eye target;
          z = (if lengthSq z = 0 then Vector3 (vx z) (vy z) 1 else z)
      in normalize3 z)"

definition lookAt :: "Matrix4 \<Rightarrow> Vector3 \<Rightarrow> Vector3 \<Rightarrow> Vector3 \<Rightarrow> Matrix4" where
  "lookAt m eye target up =
     (let z = lookAt_z eye target;
          x = crossVectors up z;
          z = (if lengthSq x = 0
               then normalize3 (if \<bar>vz up\<bar> = 1
                                then Vector3 (vx z + 0.0001) (vy z) (vz z)
                                else Vector3 (vx z) (vy z) (vz z + 0.0001))
               else z);
          x = (if lengthSq x = 0 then crossVectors up z else x);
          x = normalize3 x;
          y = crossVectors z x
      in Matrix4 (vx x) (vy x) (vz x) (te3 m)
                 (vx y) (vy y) (vz y) (te7 m)
                 (vx z) (vy z) (vz z) (te11 m)
                 (te12 m) (te13 m) (te14 m) (te15 m))"

definition setPosition :: "Matrix4 \<Rightarrow> Vector3 \<Rightarrow> Matrix4" where
  "setPosition m v = Matrix4
     (te0 m) (te1 m) (te2 m) (te3 m)
     (te4 m) (te5 m) (te6 m) (te7 m)
     (te8 m) (te9 m) (te10 m) (te11 m)
     (vx v) (vy v) (vz v) (te15 m)"

definition multiplyMatrices :: "Matrix4 \<Rightarrow> Matrix4 \<Rightarrow> Matrix4" where
  "multiplyMatrices a b =
     (let a11 = te0 a; a12 = te4 a; a13 = te8 a; a14 = te12 a;
          a21 = te1 a; a22 = te5 a; a23 = te9 a; a24 = te13 a;
          a31 = te2 a; a32 = te6 a; a33 = te10 a; a34 = te14 a;
          a41 = te3 a; a42 = te7 a; a43 = te11 a; a44 = te15 a;
          b11 = te0 b; b12 = te4 b; b13 = te8 b; b14 = te12 b;
          b21 = te1 b; b22 = te5 b; b23 = te9 b; b24 = te13 b;
          b31 = te2 b; b32 = te6 b; b33 = te10 b; b34 = te14 b;
          b41 = te3 b; b42 = te7 b; b43 = te11 b; b44 = te15 b
      in Matrix4
           (a11 * b11 + a12 * b21 + a13 * b31 + a14 * b41)
           (a21 * b11 + a22 * b21 + a23 * b31 + a24 * b41)
           (a31 * b11 + a32 * b21 + a33 * b31 + a34 * b41)
           (a41 * b11 + a42 * b21 + a43 * b31 + a44 * b41)
           (a11 * b12 + a12 * b22 + a13 * b32 + a14 * b42)
           (a21 * b12 + a22 * b22 + a23 * b32 + a24 * b42)
           (a31 * b12 + a32 * b22 + a33 * b32 + a34 * b42)
           (a41 * b12 + a42 * b22 + a43 * b32 + a44 * b42)
           (a11 * b13 + a12 * b23 + a13 * b33 + a14 * b43)
           (a21 * b13 + a22 * b23 + a23 * b33 + a24 * b43)
           (a31 * b13 + a32 * b23 + a33 * b33 + a34 * b43)
           (a41 * b13 + a42 * b23 + a43 * b33 + a44 * b43)
           (a11 * b14 + a12 * b24 + a13 * b34 + a14 * b44)
           (a21 * b14 + a22 * b24 + a23 * b34 + a24 * b44)
           (a31 * b14 + a32 * b24 + a33 * b34 + a34 * b44)
           (a41 * b14 + a42 * b24 + a43 * b34 + a44 * b44))"

text \<open>
  \<^verbatim>\<open>invert()\<close> divides the adjugate by the determinant, and returns the zero
  matrix when the determinant is zero.
\<close>

definition determinant_t11 :: "Matrix4 \<Rightarrow> real" where
  "determinant_t11 m =
     (let n22 = te5 m; n32 = te6 m; n42 = te7 m;
          n23 = te9 m; n33 = te10 m; n43 = te11 m;
          n24 = te13 m; n34 = te14 m; n44 = te15 m
      in n23 * n34 * n42 - n24 * n33 * n42 + n24 * n32 * n43
         - n22 * n34 * n43 - n23 * n32 * n44 + n22 * n33 * n44)"

definition determinant_t12 :: "Matrix4 \<Rightarrow> real" where
  "determinant_t12 m =
     (let n12 = te4 m; n32 = te6 m; n42 = te7 m;
          n13 = te8 m; n33 = te10 m; n43 = te11 m;
          n14 = te12 m; n34 = te14 m; n44 = te15 m
      in n14 * n33 * n42 - n13 * n34 * n42 - n14 * n32 * n43
         + n12 * n34 * n43 + n13 * n32 * n44 - n12 * n33 * n44)"

definition determinant_t13 :: "Matrix4 \<Rightarrow> real" where
  "determinant_t13 m =
     (let n12 = te4 m; n22 = te5 m; n42 = te7 m;
          n13 = te8 m; n23 = te9 m; n43 = te11 m;
          n14 = te12 m; n24 = te13 m; n44 = te15 m
      in n13 * n24 * n42 - n14 * n23 * n42 + n14 * n22 * n43
         - n12 * n24 * n43 - n13 * n22 * n44 + n12 * n23 * n44)"

definition determinant_t14 :: "Matrix4 \<Rightarrow> real" where
  "determinant_t14 m =
     (let n12 = te4 m; n22 = te5 m; n32 = te6 m;
          n13 = te8 m; n23 = te9 m; n33 = te10 m;
          n14 = te12 m; n24 = te13 m; n34 = te14 m
      in n14 * n23 * n32 - n13 * n24 * n32 - n14 * n22 * n33
         + n12 * n24 * n33 + n13 * n22 * n34 - n12 * n23 * n34)"

definition determinant :: "Matrix4 \<Rightarrow> real" where
  "determinant m =
     te0 m * determinant_t11 m + te1 m * determinant_t12 m
     + te2 m * determinant_t13 m + te3 m * determinant_t14 m"

definition invert :: "Matrix4 \<Rightarrow> Matrix4" where
  "invert m =
     (let n11 = te0 m; n21 = te1 m; n31 = te2 m; n41 = te3 m;
          n12 = te4 m; n22 = te5 m; n32 = te6 m; n42 = te7 m;
          n13 = te8 m; n23 = te9 m; n33 = te10 m; n43 = te11 m;
          n14 = te12 m; n24 = te13 m; n34 = te14 m; n44 = te15 m;
          det = determinant m
      in if det = 0 then Matrix4_zero
         else
           (let detInv = 1 / det
            in Matrix4
              (determinant_t11 m * detInv)
              ((n24 * n33 * n41 - n23 * n34 * n41 - n24 * n31 * n43
                + n21 * n34 * n43 + n23 * n31 * n44 - n21 * n33 * n44) * detInv)
              ((n22 * n34 * n41 - n24 * n32 * n41 + n24 * n31 * n42
                - n21 * n34 * n42 - n22 * n31 * n44 + n21 * n32 * n44) * detInv)
              ((n23 * n32 * n41 - n22 * n33 * n41 - n23 * n31 * n42
                + n21 * n33 * n42 + n22 * n31 * n43 - n21 * n32 * n43) * detInv)
              (determinant_t12 m * detInv)
              ((n13 * n34 * n41 - n14 * n33 * n41 + n14 * n31 * n43
                - n11 * n34 * n43 - n13 * n31 * n44 + n11 * n33 * n44) * detInv)
              ((n14 * n32 * n41 - n12 * n34 * n41 - n14 * n31 * n42
                + n11 * n34 * n42 + n12 * n31 * n44 - n11 * n32 * n44) * detInv)
              ((n12 * n33 * n41 - n13 * n32 * n41 + n13 * n31 * n42
                - n11 * n33 * n42 - n12 * n31 * n43 + n11 * n32 * n43) * detInv)
              (determinant_t13 m * detInv)
              ((n14 * n23 * n41 - n13 * n24 * n41 - n14 * n21 * n43
                + n11 * n24 * n43 + n13 * n21 * n44 - n11 * n23 * n44) * detInv)
              ((n12 * n24 * n41 - n14 * n22 * n41 + n14 * n21 * n42
                - n11 * n24 * n42 - n12 * n21 * n44 + n11 * n22 * n44) * detInv)
              ((n13 * n22 * n41 - n12 * n23 * n41 - n13 * n21 * n42
                + n11 * n23 * n42 + n12 * n21 * n43 - n11 * n22 * n43) * detInv)
              (determinant_t14 m * detInv)
              ((n13 * n24 * n31 - n14 * n23 * n31 + n14 * n21 * n33
                - n11 * n24 * n33 - n13 * n21 * n34 + n11 * n23 * n34) * detInv)
              ((n14 * n22 * n31 - n12 * n24 * n31 - n14 * n21 * n32
                + n11 * n24 * n32 + n12 * n21 * n34 - n11 * n22 * n34) * detInv)
              ((n12 * n23 * n31 - n13 * n22 * n31 + n13 * n21 * n32
                - n11 * n23 * n32 - n12 * n21 * n33 + n11 * n22 * n33) * detInv)))"

section \<open>Helpers of the repository that the sources do not include\<close>

text \<open>
  Modelled from the spec: \<^verbatim>\<open>lerp\<close> of \<^verbatim>\<open>@takram/three-geospatial\<close>, imported
  by the cascaded shadow module and not among the sources. The spec uses it as the
  linear blend between its first two arguments by a raw factor, without clamping the
  factor to [0, 1].
\<close>

definition lerp :: "real \<Rightarrow> real \<Rightarrow> real \<Rightarrow> real" where
  "lerp a b t = a + (b - a) * t"

text \<open>
  Modelled from the spec: the split modes of \<^verbatim>\<open>helpers/splitFrustum\<close>, which is
  not among the sources. Section 4.1 of the spec names three modes and gives the
  \<open>i\<close>-th split distance (counting from 1) of each:
  \<^item> \<^verbatim>\<open>uniform\<close>: \<open>near + (far - near) * i / count\<close>,
  \<^item> \<^verbatim>\<open>logarithmic\<close>: \<open>near * (far / near) ^ (i / count)\<close>,
  \<^item> \<^verbatim>\<open>practical\<close>: \<open>lambda * logarithmic + (1 - lambda) * uniform\<close>.
\<close>

datatype FrustumSplitMode = Uniform | Logarithmic | Practical

definition uniformSplit :: "nat \<Rightarrow> real \<Rightarrow> real \<Rightarrow> nat \<Rightarrow> real" where
  "uniformSplit count near far i = near + (far - near) * real i / real count"

definition logarithmicSplit :: "nat \<Rightarrow> real \<Rightarrow> real \<Rightarrow> nat \<Rightarrow> real" where
  "logarithmicSplit count near far i = near * (far / near) powr (real i / real count)"

definition practicalSplit :: "nat \<Rightarrow> real \<Rightarrow> real \<Rightarrow> real \<Rightarrow> nat \<Rightarrow> real" where
  "practicalSplit count near far lambda i =
     lambda * logarithmicSplit count near far i
     + (1 - lambda) * uniformSplit count near far i"

fun splitAt :: "FrustumSplitMode \<Rightarrow> nat \<Rightarrow> real \<Rightarrow> real \<Rightarrow> real \<Rightarrow> nat \<Rightarrow> real" where
  "splitAt Uniform count near far lambda i = uniformSplit count near far i"
| "splitAt Logarithmic count near far lambda i = logarithmicSplit count near far i"
| "splitAt Practical count near far lambda i = practicalSplit count near far lambda i"

text \<open>
  Modelled from the spec: \<^verbatim>\<open>splitFrustum\<close> of \<^verbatim>\<open>helpers/splitFrustum\<close>, which is
  not among the sources. By the contract of section 4.1 it yields the sequence of the
  \<open>count\<close> split distances, from the first to the \<open>count\<close>-th. The source passes
  an array to be filled as a sixth argument; the model returns the sequence.
\<close>

definition splitFrustum ::
  "FrustumSplitMode \<Rightarrow> nat \<Rightarrow> real \<Rightarrow> real \<Rightarrow> real \<Rightarrow> real list" where
  "splitFrustum mode count near far lambda =
     map (splitAt mode count near far lambda) [1..<Suc count]"

text \<open>
  Modelled from the spec: the data of the class \<^verbatim>\<open>FrustumCorners\<close> of
  \<^verbatim>\<open>helpers/FrustumCorners\<close>, which is not among the sources. By section 3 of the
  spec a frustum is eight points, four near corners and four far corners; the
  source reads them as \<^verbatim>\<open>near[j]\<close> and \<^verbatim>\<open>far[j]\<close> for \<open>j\<close> from 0 to 3.
  What \<^verbatim>\<open>setFromCamera\<close> computes from the camera's projection is not given by the
  spec: the functions below that call it take it as the parameter \<open>setFromCamera\<close>.
\<close>

datatype Corners = Corners (c0: Vector3) (c1: Vector3) (c2: Vector3) (c3: Vector3)

record FrustumCorners =
  corners_near :: Corners
  corners_far :: Corners

definition mapCorners :: "(Vector3 \<Rightarrow> Vector3) \<Rightarrow> Corners \<Rightarrow> Corners" where
  "mapCorners f c = Corners (f (c0 c)) (f (c1 c)) (f (c2 c)) (f (c3 c))"

text \<open>
  Modelled from the spec: \<^verbatim>\<open>FrustumCorners.applyMatrix4\<close>, which is not among the
  sources. By section 4.2 of the spec it transforms all eight corners by the matrix.
\<close>

definition FrustumCorners_applyMatrix4 :: "FrustumCorners \<Rightarrow> Matrix4 \<Rightarrow> FrustumCorners" where
  "FrustumCorners_applyMatrix4 f m =
     \<lparr> corners_near = mapCorners (\<lambda>v. applyMatrix4 v m) (corners_near f),
       corners_far = mapCorners (\<lambda>v. applyMatrix4 v m) (corners_far f) \<rparr>"

text \<open>
  Modelled from the spec: \<^verbatim>\<open>FrustumCorners.split\<close>, which is not among the sources.
  By section 4.2 of the spec it turns K split distances into K sub-frusta, whose
  corners interpolate linearly between the near and the far corners with the
  parameter \<open>(depth - near) / (far - near)\<close> at each boundary; sub-frustum \<open>i\<close>
  reaches from boundary \<open>i - 1\<close> (the near plane for the first) to boundary \<open>i\<close>.
  The depth range of the frustum is passed as \<open>near\<close> and \<open>far\<close>; the source
  passes an array to be filled, and the model returns the sub-frusta.
\<close>

definition cornersAt :: "FrustumCorners \<Rightarrow> real \<Rightarrow> real \<Rightarrow> real \<Rightarrow> Corners" where
  "cornersAt f near far depth =
     (let t = (depth - near) / (far - near)
      in Corners (lerpVectors (c0 (corners_near f)) (c0 (corners_far f)) t)
                 (lerpVectors (c1 (corners_near f)) (c1 (corners_far f)) t)
                 (lerpVectors (c2 (corners_near f)) (c2 (corners_far f)) t)
                 (lerpVectors (c3 (corners_near f)) (c3 (corners_far f)) t))"

definition FrustumCorners_split ::
  "FrustumCorners \<Rightarrow> real \<Rightarrow> real \<Rightarrow> real list \<Rightarrow> FrustumCorners list" where
  "FrustumCorners_split f near far splitDistances =
     map (\<lambda>(lo, hi). \<lparr> corners_near = cornersAt f near far lo,
                         corners_far = cornersAt f near far hi \<rparr>)
         (zip (near # butlast splitDistances) splitDistances)"

section \<open>The class CascadedShadows\<close>

text \<open>
  The camera is three.js's \<^verbatim>\<open>PerspectiveCamera\<close>, of which the class reads
  \<^verbatim>\<open>near\<close>, \<^verbatim>\<open>far\<close> and \<^verbatim>\<open>matrixWorld\<close>; \<^verbatim>\<open>getWorldPosition\<close> is the
  translation of the world matrix.
\<close>

record PerspectiveCamera =
  camera_near :: real
  camera_far :: real
  matrixWorld :: Matrix4

definition getWorldPosition :: "PerspectiveCamera \<Rightarrow> Vector3" where
  "getWorldPosition camera =
     Vector3 (te12 (matrixWorld camera)) (te13 (matrixWorld camera)) (te14 (matrixWorld camera))"

record Cascade =
  interval :: Vector2
  matrix :: Matrix4
  inverseMatrix :: Matrix4
  projectionMatrix :: Matrix4
  inverseProjectionMatrix :: Matrix4
  viewMatrix :: Matrix4
  inverseViewMatrix :: Matrix4

record CascadedShadows =
  cascades :: "Cascade list"
  cascadeSize :: real
  far :: real
  mode :: FrustumSplitMode
  lambda :: real
  margin :: real
  fade :: bool
  frusta :: "FrustumCorners list"
  splits :: "real list"

text \<open>The only failure of the class: \<^verbatim>\<open>invariant(...)\<close> of tiny-invariant throws.\<close>

datatype error = InvariantFailed

subsection \<open>extractOrthographicTuple\<close>

definition extractOrthographicTuple :: "Matrix4 \<Rightarrow> real \<times> real \<times> real \<times> real" where
  "extractOrthographicTuple m =
     (let m00 = te0 m;
          m03 = te12 m;
          m11 = te5 m;
          m13 = te13 m;
          RmL = 2 / m00;
          RpL = RmL * - m03;
          TmB = 2 / m11;
          TpB = TmB * - m13
      in ((RpL - RmL) / 2, (RmL + RpL) / 2, (TmB + TpB) / 2, (TpB - TmB) / 2))"

subsection \<open>The getter and the setter of cascadeCount\<close>

definition cascadeCount :: "CascadedShadows \<Rightarrow> nat" where
  "cascadeCount self = length (cascades self)"

definition newCascade :: Cascade where
  "newCascade =
     \<lparr> interval = Vector2_new,
       matrix = Matrix4_new,
       inverseMatrix = Matrix4_new,
       projectionMatrix = Matrix4_new,
       inverseProjectionMatrix = Matrix4_new,
       viewMatrix = Matrix4_new,
       inverseViewMatrix = Matrix4_new \<rparr>"

text \<open>
  The loop \<^verbatim>\<open>for (i = 0; i < value; ++i) cascades[i] ??= {...}\<close> keeps the entries
  that exist and appends a new cascade at every index from the old length on;
  \<^verbatim>\<open>cascades.length = value\<close> then cuts the array to \<open>value\<close> entries. The value is
  a count, a natural number.
\<close>

fun fillCascades :: "nat \<Rightarrow> nat \<Rightarrow> Cascade list \<Rightarrow> Cascade list" where
  "fillCascades i 0 cs = cs"
| "fillCascades i (Suc n) cs =
     fillCascades (Suc i) n (if i < length cs then cs else cs @ [newCascade])"

definition set_cascadeCount :: "nat \<Rightarrow> CascadedShadows \<Rightarrow> CascadedShadows" where
  "set_cascadeCount v self =
     (if v \<noteq> cascadeCount self
      then self\<lparr>cascades := take v (fillCascades 0 v (cascades self))\<rparr>
      else self)"

subsection \<open>updateIntervals\<close>

text \<open>
  \<^verbatim>\<open>splits[i] ?? 0\<close>: an index outside the array reads \<^verbatim>\<open>undefined\<close>, which
  \<^verbatim>\<open>??\<close> replaces by 0. The index \<open>i - 1\<close> is -1 for the first cascade.
\<close>

definition nthOr0 :: "real list \<Rightarrow> int \<Rightarrow> real" where
  "nthOr0 xs i = (if 0 \<le> i \<and> i < int (length xs) then xs ! nat i else 0)"

definition setIntervals :: "real list \<Rightarrow> Cascade list \<Rightarrow> Cascade list" where
  "setIntervals sp cs =
     map (\<lambda>(i, c). c\<lparr>interval := Vector2 (nthOr0 sp (int i - 1)) (nthOr0 sp (int i))\<rparr>)
         (zip [0..<length cs] cs)"

definition updateIntervals ::
  "(PerspectiveCamera \<Rightarrow> real \<Rightarrow> FrustumCorners) \<Rightarrow> PerspectiveCamera
     \<Rightarrow> CascadedShadows \<Rightarrow> CascadedShadows" where
  "updateIntervals setFromCamera camera self =
     (let count = cascadeCount self;
          far' = min (far self) (camera_far camera);
          splits' = splitFrustum (mode self) count (camera_near camera) far' (lambda self);
          frusta' = FrustumCorners_split (setFromCamera camera far')
                      (camera_near camera) far' splits'
      in self\<lparr>splits := splits', frusta := frusta',
              cascades := setIntervals splits' (cascades self)\<rparr>)"

subsection \<open>getFrustumRadius and updateProjectionMatrix\<close>

definition getFrustumRadius ::
  "CascadedShadows \<Rightarrow> PerspectiveCamera \<Rightarrow> FrustumCorners \<Rightarrow> real" where
  "getFrustumRadius self camera frustum =
     (let nearCorners = corners_near frustum;
          farCorners = corners_far frustum;
          diagonalLength = max (distanceTo (c0 farCorners) (c2 farCorners))
                               (distanceTo (c0 farCorners) (c2 nearCorners));
          diagonalLength =
            (if fade self
             then (let near = camera_near camera;
                       far' = min (far self) (camera_far camera);
                       distance = vz (c0 farCorners) / (far' - near)
                   in diagonalLength + 0.25 * distance ^ 2 * (far' - near))
             else diagonalLength)
      in diagonalLength * 0.5)"

definition cascadeProjection :: "CascadedShadows \<Rightarrow> PerspectiveCamera \<Rightarrow> FrustumCorners \<Rightarrow> Matrix4" where
  "cascadeProjection self camera frustum =
     (let radius = getFrustumRadius self camera frustum
      in makeOrthographic (- radius) radius radius (- radius)
           (- margin self) (radius * 2 + margin self))"

definition updateProjectionMatrix ::
  "PerspectiveCamera \<Rightarrow> CascadedShadows \<Rightarrow> error + CascadedShadows" where
  "updateProjectionMatrix camera self =
     (if length (frusta self) \<noteq> length (cascades self) then Inl InvariantFailed
      else Inr (self\<lparr>cascades :=
        map (\<lambda>(frustum, shadow).
               shadow\<lparr>projectionMatrix := cascadeProjection self camera frustum\<rparr>)
            (zip (frusta self) (cascades self))\<rparr>))"

subsection \<open>updateInverseViewMatrix\<close>

text \<open>
  \<^verbatim>\<open>matrixScratch1\<close> is a module-level matrix that starts as the identity and is
  only ever written by \<^verbatim>\<open>lookAt\<close>, so the elements \<^verbatim>\<open>lookAt\<close> leaves alone are
  those of the identity. The ellipsoid enters through its method
  \<^verbatim>\<open>getSurfaceNormal\<close> alone (the class \<^verbatim>\<open>Ellipsoid\<close> is not among the sources):
  it is the parameter \<open>getSurfaceNormal\<close>.
\<close>

definition lightOrientationMatrix :: "Vector3 \<Rightarrow> Matrix4" where
  "lightOrientationMatrix sunDirection =
     lookAt Matrix4_new (setScalar 0) (multiplyScalar sunDirection (- 1)) DEFAULT_UP"

definition cameraToLightMatrix :: "PerspectiveCamera \<Rightarrow> Vector3 \<Rightarrow> Matrix4" where
  "cameraToLightMatrix camera sunDirection =
     multiplyMatrices (invert (lightOrientationMatrix sunDirection)) (matrixWorld camera)"

text \<open>Increase light's distance to the target when the sun is at the horizon.\<close>

definition zenithAngle :: "(Vector3 \<Rightarrow> Vector3) \<Rightarrow> PerspectiveCamera \<Rightarrow> Vector3 \<Rightarrow> real" where
  "zenithAngle getSurfaceNormal camera sunDirection =
     (let cameraPosition = getWorldPosition camera;
          up = getSurfaceNormal cameraPosition
      in dot sunDirection up)"

definition lightDistance :: "(Vector3 \<Rightarrow> Vector3) \<Rightarrow> PerspectiveCamera \<Rightarrow> Vector3 \<Rightarrow> real" where
  "lightDistance getSurfaceNormal camera sunDirection =
     lerp 1000000 1000 (zenithAngle getSurfaceNormal camera sunDirection)"

text \<open>
  The body of the loop over the cascades, in its steps. The bounding box of the
  frustum in light space: the inner loop adds \<^verbatim>\<open>near[j]\<close> and \<^verbatim>\<open>far[j]\<close> for
  \<open>j\<close> from 0 to 3.
\<close>

definition lightSpaceBox :: "Matrix4 \<Rightarrow> FrustumCorners \<Rightarrow> Box3" where
  "lightSpaceBox cameraToLight frustum =
     (let f = FrustumCorners_applyMatrix4 frustum cameraToLight;
          nearCorners = corners_near f;
          farCorners = corners_far f
      in fold (\<lambda>p bbox. expandByPoint bbox p)
           [c0 nearCorners, c0 farCorners, c1 nearCorners, c1 farCorners,
            c2 nearCorners, c2 farCorners, c3 nearCorners, c3 farCorners]
           makeEmpty)"

text \<open>\<^verbatim>\<open>center = bbox.getCenter(...)\<close>, then \<^verbatim>\<open>center.z = bbox.max.z + margin\<close>.\<close>

definition lightSpaceCenter :: "real \<Rightarrow> Box3 \<Rightarrow> Vector3" where
  "lightSpaceCenter margin' bbox =
     (let center = getCenter bbox
      in Vector3 (vx center) (vy center) (vz (box_max bbox) + margin'))"

text \<open>Round light-space translation to even texel increments.\<close>

definition texelSize :: "real \<Rightarrow> Matrix4 \<Rightarrow> real \<times> real" where
  "texelSize cascadeSize' projection =
     (case extractOrthographicTuple projection of
        (left, right, top', bottom) \<Rightarrow>
          ((right - left) / cascadeSize', (top' - bottom) / cascadeSize'))"

definition snapCenter :: "real \<Rightarrow> Matrix4 \<Rightarrow> Vector3 \<Rightarrow> Vector3" where
  "snapCenter cascadeSize' projection center =
     (case texelSize cascadeSize' projection of
        (texelWidth, texelHeight) \<Rightarrow>
          Vector3 (Math_round (vx center / texelWidth) * texelWidth)
                  (Math_round (vy center / texelHeight) * texelHeight)
                  (vz center))"

text \<open>
  The snapped center for the frustum \<open>frustum\<close> and the cascade's projection
  matrix \<open>projection\<close>, moved back to world space by
  \<^verbatim>\<open>center.applyMatrix4(lightOrientationMatrix)\<close>.
\<close>

definition lightTarget ::
  "real \<Rightarrow> real \<Rightarrow> PerspectiveCamera \<Rightarrow> Vector3 \<Rightarrow> FrustumCorners \<Rightarrow> Matrix4 \<Rightarrow> Vector3" where
  "lightTarget margin' cascadeSize' camera sunDirection frustum projection =
     (let bbox = lightSpaceBox (cameraToLightMatrix camera sunDirection) frustum;
          center = lightSpaceCenter margin' bbox;
          center = snapCenter cascadeSize' projection center
      in applyMatrix4 center (lightOrientationMatrix sunDirection))"

text \<open>\<^verbatim>\<open>position = sunDirection * distance + center\<close>.\<close>

definition lightPosition :: "Vector3 \<Rightarrow> real \<Rightarrow> Vector3 \<Rightarrow> Vector3" where
  "lightPosition sunDirection distance center =
     addVectors (multiplyScalar sunDirection distance) center"

definition placeLight ::
  "real \<Rightarrow> real \<Rightarrow> PerspectiveCamera \<Rightarrow> Vector3 \<Rightarrow> real \<Rightarrow> FrustumCorners \<Rightarrow> Cascade
     \<Rightarrow> Cascade" where
  "placeLight margin' cascadeSize' camera sunDirection distance frustum cascade =
     (let center = lightTarget margin' cascadeSize' camera sunDirection frustum
                     (projectionMatrix cascade);
          position = lightPosition sunDirection distance center
      in cascade\<lparr>inverseViewMatrix :=
           setPosition (lookAt (inverseViewMatrix cascade) center position DEFAULT_UP)
             position\<rparr>)"

definition updateInverseViewMatrix ::
  "(Vector3 \<Rightarrow> Vector3) \<Rightarrow> PerspectiveCamera \<Rightarrow> Vector3 \<Rightarrow> CascadedShadows
     \<Rightarrow> error + CascadedShadows" where
  "updateInverseViewMatrix getSurfaceNormal camera sunDirection self =
     (let distance = lightDistance getSurfaceNormal camera sunDirection
      in if length (frusta self) \<noteq> length (cascades self) then Inl InvariantFailed
         else
           (let margin' = margin self;
                cascadeSize' = cascadeSize self
            in Inr (self\<lparr>cascades :=
                 map (\<lambda>(frustum, cascade).
                        placeLight margin' cascadeSize' camera sunDirection distance
                          frustum cascade)
                     (zip (frusta self) (cascades self))\<rparr>)))"

subsection \<open>update\<close>

text \<open>The last loop of \<^verbatim>\<open>update\<close> derives four matrices of each cascade.\<close>

definition deriveMatrices :: "Cascade \<Rightarrow> Cascade" where
  "deriveMatrices c =
     (let inverseProjectionMatrix' = invert (projectionMatrix c);
          viewMatrix' = invert (inverseViewMatrix c);
          matrix' = multiplyMatrices (projectionMatrix c) viewMatrix';
          inverseMatrix' = multiplyMatrices (inverseViewMatrix c) inverseProjectionMatrix'
      in c\<lparr>inverseProjectionMatrix := inverseProjectionMatrix',
            viewMatrix := viewMatrix',
            matrix := matrix',
            inverseMatrix := inverseMatrix'\<rparr>)"

definition update ::
  "(PerspectiveCamera \<Rightarrow> real \<Rightarrow> FrustumCorners) \<Rightarrow> (Vector3 \<Rightarrow> Vector3)
     \<Rightarrow> PerspectiveCamera \<Rightarrow> Vector3 \<Rightarrow> CascadedShadows \<Rightarrow> error + CascadedShadows" where
  "update setFromCamera getSurfaceNormal camera sunDirection self =
     (case updateProjectionMatrix camera (updateIntervals setFromCamera camera self) of
        Inl e \<Rightarrow> Inl e
      | Inr s1 \<Rightarrow>
          (case updateInverseViewMatrix getSurfaceNormal camera sunDirection s1 of
             Inl e \<Rightarrow> Inl e
           | Inr s2 \<Rightarrow> Inr (s2\<lparr>cascades := map deriveMatrices (cascades s2)\<rparr>)))"

subsection \<open>The cascade array as an array of object references\<close>

text \<open>
  A JavaScript array holds references. Where the identity of the cascade objects
  matters, the objects live in a store, addressed by their index in it, and the
  array \<^verbatim>\<open>cascades\<close> is a list of addresses. \<^verbatim>\<open>??=\<close> allocates an object only
  at an index the array does not have yet; an allocation appends to the store, so
  the new address is the length of the store before.
\<close>

record CascadeRefs =
  store :: "Cascade list"
  refs :: "nat list"

fun fillRefs :: "nat \<Rightarrow> nat \<Rightarrow> CascadeRefs \<Rightarrow> CascadeRefs" where
  "fillRefs i 0 h = h"
| "fillRefs i (Suc n) h =
     fillRefs (Suc i) n
       (if i < length (refs h) then h
        else \<lparr> store = store h @ [newCascade], refs = refs h @ [length (store h)] \<rparr>)"

definition set_cascadeCount_refs :: "nat \<Rightarrow> CascadeRefs \<Rightarrow> CascadeRefs" where
  "set_cascadeCount_refs v h =
     (if v \<noteq> length (refs h)
      then (let h' = fillRefs 0 v h in h'\<lparr>refs := take v (refs h')\<rparr>)
      else h)"

text \<open>The cascades the array denotes: the objects at its addresses.\<close>

definition deref :: "CascadeRefs \<Rightarrow> Cascade list" where
  "deref h = map (\<lambda>r. store h ! r) (refs h)"

section \<open>The material CloudsShadowMaterial\<close>

text \<open>
  Of the shader material, the define \<^verbatim>\<open>CASCADE_COUNT\<close> and the flag
  \<^verbatim>\<open>needsUpdate\<close>. The define is a string that the getter converts with unary
  plus; the model keeps the number the string denotes, and \<open>None\<close> while the
  define is not set (the getter then yields NaN, which differs from every value).
\<close>

record CloudsShadowMaterial =
  defines_CASCADE_COUNT :: "nat option"
  needsUpdate :: bool

definition material_set_cascadeCount :: "nat \<Rightarrow> CloudsShadowMaterial \<Rightarrow> CloudsShadowMaterial" where
  "material_set_cascadeCount v self =
     (if Some v \<noteq> defines_CASCADE_COUNT self
      then self\<lparr>defines_CASCADE_COUNT := Some v, needsUpdate := True\<rparr>
      else self)"

section \<open>The class CascadedShadowMaps\<close>

text \<open>
  The variant of the algorithm that drives directional lights keeps the flag
  \<^verbatim>\<open>needsUpdateFrusta\<close>. Its private fields \<^verbatim>\<open>_far\<close>, \<^verbatim>\<open>_mode\<close>, ... carry the
  prefix \<open>csm\<close> here. Of a light, the model keeps the shadow map size and whether a
  shadow map is allocated. The class \<^verbatim>\<open>CascadedDirectionalLights\<close> is not among
  the sources: its method \<^verbatim>\<open>setCount\<close> is the parameter \<open>setCount\<close>, the main
  light and the cascaded lights are kept as separate values, and nothing below
  depends on whether the main light is one of the cascaded lights.
\<close>

record Light =
  shadow_mapSize :: Vector2
  shadow_map :: bool

record CascadedDirectionalLights =
  mainLight :: Light
  cascadedLights :: "Light list"

record CascadedShadowMaps =
  needsUpdateFrusta :: bool
  directionalLights :: CascadedDirectionalLights
  csm_far :: real
  csm_mode :: FrustumSplitMode
  csm_lambda :: real
  csm_margin :: real
  csm_fade :: bool
  csm_disableLastCascadeCutoff :: bool

definition csm_cascadeCount :: "CascadedShadowMaps \<Rightarrow> nat" where
  "csm_cascadeCount self = length (cascadedLights (directionalLights self))"

definition csm_set_cascadeCount ::
  "(nat \<Rightarrow> CascadedDirectionalLights \<Rightarrow> CascadedDirectionalLights) \<Rightarrow> nat
     \<Rightarrow> CascadedShadowMaps \<Rightarrow> CascadedShadowMaps" where
  "csm_set_cascadeCount setCount v self =
     (if v \<noteq> csm_cascadeCount self
      then self\<lparr>directionalLights := setCount v (directionalLights self),
                needsUpdateFrusta := True\<rparr>
      else self)"

definition csm_mapSize :: "CascadedShadowMaps \<Rightarrow> real" where
  "csm_mapSize self = v2x (shadow_mapSize (mainLight (directionalLights self)))"

definition csm_set_mapSize :: "real \<Rightarrow> CascadedShadowMaps \<Rightarrow> CascadedShadowMaps" where
  "csm_set_mapSize v self =
     (if v \<noteq> csm_mapSize self
      then self\<lparr>directionalLights := (directionalLights self)\<lparr>cascadedLights :=
             map (\<lambda>light. light\<lparr>shadow_mapSize := Vector2 v v, shadow_map := False\<rparr>)
                 (cascadedLights (directionalLights self))\<rparr>\<rparr>
      else self)"

definition csm_set_far :: "real \<Rightarrow> CascadedShadowMaps \<Rightarrow> CascadedShadowMaps" where
  "csm_set_far v self =
     (if v \<noteq> csm_far self then self\<lparr>csm_far := v, needsUpdateFrusta := True\<rparr> else self)"

definition csm_set_mode :: "FrustumSplitMode \<Rightarrow> CascadedShadowMaps \<Rightarrow> CascadedShadowMaps" where
  "csm_set_mode v self =
     (if v \<noteq> csm_mode self then self\<lparr>csm_mode := v, needsUpdateFrusta := True\<rparr> else self)"

definition csm_set_lambda :: "real \<Rightarrow> CascadedShadowMaps \<Rightarrow> CascadedShadowMaps" where
  "csm_set_lambda v self =
     (if v \<noteq> csm_lambda self then self\<lparr>csm_lambda := v, needsUpdateFrusta := True\<rparr>
      else self)"

definition csm_set_margin :: "real \<Rightarrow> CascadedShadowMaps \<Rightarrow> CascadedShadowMaps" where
  "csm_set_margin v self =
     (if v \<noteq> csm_margin self then self\<lparr>csm_margin := v, needsUpdateFrusta := True\<rparr>
      else self)"

definition csm_set_fade :: "bool \<Rightarrow> CascadedShadowMaps \<Rightarrow> CascadedShadowMaps" where
  "csm_set_fade v self =
     (if v \<noteq> csm_fade self then self\<lparr>csm_fade := v, needsUpdateFrusta := True\<rparr> else self)"

definition csm_set_disableLastCascadeCutoff ::
  "bool \<Rightarrow> CascadedShadowMaps \<Rightarrow> CascadedShadowMaps" where
  "csm_set_disableLastCascadeCutoff v self =
     (if v \<noteq> csm_disableLastCascadeCutoff self
      then self\<lparr>csm_disableLastCascadeCutoff := v, needsUpdateFrusta := True\<rparr>
      else self)"

text \<open>
  \<^verbatim>\<open>update()\<close> runs \<^verbatim>\<open>updateFrusta()\<close> only when the flag is set, after clearing
  it, and places the lights on every call. The two phases write to the lights and
  to the material states, classes that are not among the sources: they are the
  parameters \<open>updateFrusta\<close> and \<open>placeLights\<close>.
\<close>

definition csm_update ::
  "(CascadedShadowMaps \<Rightarrow> CascadedShadowMaps) \<Rightarrow> (CascadedShadowMaps \<Rightarrow> CascadedShadowMaps)
     \<Rightarrow> CascadedShadowMaps \<Rightarrow> CascadedShadowMaps" where
  "csm_update updateFrusta placeLights self =
     placeLights (if needsUpdateFrusta self
                  then updateFrusta (self\<lparr>needsUpdateFrusta := False\<rparr>)
                  else self)"

section \<open>Example inputs\<close>

text \<open>
  A camera at (2/5, 3/5, 0) with near plane 1 and far plane 3, a frustum with its
  near corners in the origin and its far corners at depth 12, the sun in the
  direction (0, 0, 1), an ellipsoid whose surface normal is (0, 0, 1) everywhere,
  and a cascaded shadow object with one fresh cascade.
\<close>

definition exampleCamera :: PerspectiveCamera where
  "exampleCamera =
     \<lparr> camera_near = 1, camera_far = 3,
       matrixWorld = Matrix4 1 0 0 0  0 1 0 0  0 0 1 0  (2 / 5) (3 / 5) 0 1 \<rparr>"

definition exampleFrustum :: FrustumCorners where
  "exampleFrustum =
     \<lparr> corners_near = Corners (Vector3 0 0 0) (Vector3 0 0 0) (Vector3 0 0 0) (Vector3 0 0 0),
       corners_far = Corners (Vector3 3 4 (- 12)) (Vector3 3 (- 4) (- 12))
                             (Vector3 (- 3) (- 4) (- 12)) (Vector3 (- 3) 4 (- 12)) \<rparr>"

definition exampleSun :: Vector3 where
  "exampleSun = Vector3 0 0 1"

definition exampleShadows :: CascadedShadows where
  "exampleShadows =
     \<lparr> cascades = [newCascade], cascadeSize = 31, far = 10000, mode = Uniform,
       lambda = 1 / 2, margin = 1, fade = True, frusta = [], splits = [] \<rparr>"

text \<open>
  A cascaded shadow map object of the light-driving variant: four lights with shadow
  maps of size 2048, nothing to update.
\<close>

definition exampleLight :: Light where
  "exampleLight = \<lparr> shadow_mapSize = Vector2 2048 2048, shadow_map = True \<rparr>"

definition exampleShadowMaps :: CascadedShadowMaps where
  "exampleShadowMaps =
     \<lparr> needsUpdateFrusta = False,
       directionalLights =
         \<lparr> mainLight = exampleLight,
           cascadedLights = [exampleLight, exampleLight, exampleLight, exampleLight] \<rparr>,
       csm_far = 5000, csm_mode = Practical, csm_lambda = 1 / 2, csm_margin = 200,
       csm_fade = True, csm_disableLastCascadeCutoff = False \<rparr>"

section \<open>The split distances\<close>

lemma splitFrustum_length: "length (splitFrustum m c n f l) = c"
  by (simp add: splitFrustum_def)


lemma uniformSplit_strict_mono:
  assumes "0 < count" "nr < fr" "i < j"
  shows "uniformSplit count nr fr i < uniformSplit count nr fr j"
proof -
  have "(fr - nr) * real i < (fr - nr) * real j"
    using assms by simp
  then have "(fr - nr) * real i / real count < (fr - nr) * real j / real count"
    using assms by (simp add: divide_strict_right_mono)
  then show ?thesis by (simp add: uniformSplit_def)
qed

lemma uniformSplit_range:
  assumes "0 < count" "nr < fr" "0 < i" "i \<le> count"
  shows "nr < uniformSplit count nr fr i \<and> uniformSplit count nr fr i \<le> fr"
proof -
  have q: "0 < real i / real count" "real i / real count \<le> 1"
    using assms by simp_all
  have "0 < (fr - nr) * (real i / real count)"
    using q assms by simp
  moreover have "(fr - nr) * (real i / real count) \<le> (fr - nr) * 1"
    using q assms by (intro mult_left_mono) simp_all
  ultimately show ?thesis by (simp add: uniformSplit_def)
qed

lemma logarithmicSplit_strict_mono:
  assumes "0 < count" "0 < nr" "nr < fr" "i < j"
  shows "logarithmicSplit count nr fr i < logarithmicSplit count nr fr j"
proof -
  have "real i / real count < real j / real count"
    using assms by (simp add: divide_strict_right_mono)
  moreover have "1 < fr / nr" using assms by simp
  ultimately have "(fr / nr) powr (real i / real count) < (fr / nr) powr (real j / real count)"
    by (rule powr_less_mono)
  then show ?thesis using assms by (simp add: logarithmicSplit_def)
qed

lemma logarithmicSplit_range:
  assumes "0 < count" "0 < nr" "nr < fr" "0 < i" "i \<le> count"
  shows "nr < logarithmicSplit count nr fr i \<and> logarithmicSplit count nr fr i \<le> fr"
proof -
  have q: "0 < real i / real count" "real i / real count \<le> 1"
    using assms by simp_all
  have b: "1 < fr / nr" using assms by simp
  have lo: "1 < (fr / nr) powr (real i / real count)"
    using b q(1) by (rule gr_one_powr)
  have "(fr / nr) powr (real i / real count) \<le> (fr / nr) powr 1"
    using q(2) b by (intro powr_mono) simp_all
  then have hi: "(fr / nr) powr (real i / real count) \<le> fr / nr" using b by simp
  have "nr * 1 < nr * (fr / nr) powr (real i / real count)"
    using lo assms by (intro mult_strict_left_mono) simp_all
  moreover have "nr * (fr / nr) powr (real i / real count) \<le> nr * (fr / nr)"
    using hi assms by (intro mult_left_mono) simp_all
  ultimately show ?thesis using assms by (simp add: logarithmicSplit_def)
qed

lemma practicalSplit_strict_mono:
  assumes "0 < count" "0 < nr" "nr < fr" "i < j" "0 \<le> lam" "lam \<le> 1"
  shows "practicalSplit count nr fr lam i < practicalSplit count nr fr lam j"
proof -
  have u: "uniformSplit count nr fr i < uniformSplit count nr fr j"
    using assms by (intro uniformSplit_strict_mono)
  have l: "logarithmicSplit count nr fr i < logarithmicSplit count nr fr j"
    using assms by (intro logarithmicSplit_strict_mono)
  show ?thesis
  proof (cases "lam = 0")
    case True
    then show ?thesis using u by (simp add: practicalSplit_def)
  next
    case False
    then have "lam * logarithmicSplit count nr fr i < lam * logarithmicSplit count nr fr j"
      using l assms by simp
    moreover have "(1 - lam) * uniformSplit count nr fr i \<le> (1 - lam) * uniformSplit count nr fr j"
      using u assms by (intro mult_left_mono) simp_all
    ultimately show ?thesis by (simp add: practicalSplit_def)
  qed
qed

lemma convex_range:
  fixes a b lo hi t :: real
  assumes "lo < a" "a \<le> hi" "lo < b" "b \<le> hi" "0 \<le> t" "t \<le> 1"
  shows "lo < t * a + (1 - t) * b \<and> t * a + (1 - t) * b \<le> hi"
proof -
  have "t * a \<le> t * hi" "(1 - t) * b \<le> (1 - t) * hi"
    using assms by (simp_all add: mult_left_mono)
  then have "t * a + (1 - t) * b \<le> t * hi + (1 - t) * hi" by linarith
  then have hi: "t * a + (1 - t) * b \<le> hi" by (simp add: algebra_simps)
  have lo: "lo < t * a + (1 - t) * b"
  proof (cases "t = 0")
    case True then show ?thesis using assms by simp
  next
    case False
    then have "t * lo < t * a" using assms by simp
    moreover have "(1 - t) * lo \<le> (1 - t) * b" using assms by (simp add: mult_left_mono)
    ultimately have "t * lo + (1 - t) * lo < t * a + (1 - t) * b" by linarith
    then show ?thesis by (simp add: algebra_simps)
  qed
  show ?thesis using lo hi by simp
qed

lemma practicalSplit_range:
  assumes "0 < count" "0 < nr" "nr < fr" "0 < i" "i \<le> count" "0 \<le> lam" "lam \<le> 1"
  shows "nr < practicalSplit count nr fr lam i \<and> practicalSplit count nr fr lam i \<le> fr"
  unfolding practicalSplit_def
  using logarithmicSplit_range[OF assms(1-5)] uniformSplit_range[OF assms(1,3,4,5)] assms(6,7)
  by (intro convex_range) simp_all

lemma splitAt_strict_mono:
  assumes "0 < count" "0 < nr" "nr < fr" "i < j"
    "md = Practical \<longrightarrow> 0 \<le> lam \<and> lam \<le> 1"
  shows "splitAt md count nr fr lam i < splitAt md count nr fr lam j"
  using assms
  by (cases md) (simp_all add: uniformSplit_strict_mono logarithmicSplit_strict_mono
      practicalSplit_strict_mono)

lemma splitAt_range:
  assumes "0 < count" "0 < nr" "nr < fr" "0 < i" "i \<le> count"
    "md = Practical \<longrightarrow> 0 \<le> lam \<and> lam \<le> 1"
  shows "nr < splitAt md count nr fr lam i \<and> splitAt md count nr fr lam i \<le> fr"
  using assms
  by (cases md) (simp_all add: uniformSplit_range logarithmicSplit_range practicalSplit_range)

lemma splitAt_last:
  assumes "0 < count" "0 < nr" "nr < fr"
  shows "splitAt md count nr fr lam count = fr"
  using assms
  by (cases md) (simp_all add: uniformSplit_def logarithmicSplit_def practicalSplit_def field_simps)

lemma splitFrustum_nth:
  "i < count \<Longrightarrow> splitFrustum md count nr fr lam ! i = splitAt md count nr fr lam (Suc i)"
  by (simp add: splitFrustum_def nth_append del: upt_Suc)


lemma splitFrustum_sorted:
  assumes "0 < nr" "nr < fr" "md = Practical \<longrightarrow> 0 \<le> lam \<and> lam \<le> 1"
  shows "sorted_wrt (<) (splitFrustum md count nr fr lam)"
proof (cases "count = 0")
  case True then show ?thesis by (simp add: splitFrustum_def)
next
  case False
  then have c: "0 < count" by simp
  show ?thesis
    unfolding sorted_wrt_iff_nth_less splitFrustum_length
    using splitAt_strict_mono[OF c assms(1,2) _ assms(3)]
    by (simp add: splitFrustum_nth)
qed

lemma splitFrustum_range:
  assumes "0 < nr" "nr < fr" "md = Practical \<longrightarrow> 0 \<le> lam \<and> lam \<le> 1"
     "d \<in> set (splitFrustum md count nr fr lam)"
  shows "nr < d \<and> d \<le> fr"
proof -
  from assms(4) obtain i where i: "i < count" "d = splitFrustum md count nr fr lam ! i"
    by (auto simp: in_set_conv_nth splitFrustum_length)
  then have c: "0 < count" by simp
  show ?thesis using splitAt_range[OF c assms(1,2) _ _ assms(3), of "Suc i"] i
    by (simp add: splitFrustum_nth)
qed

lemma splitFrustum_last:
  assumes "0 < count" "0 < nr" "nr < fr"
  shows "last (splitFrustum md count nr fr lam) = fr"
proof -
  have "last (splitFrustum md count nr fr lam) = splitFrustum md count nr fr lam ! (count - 1)"
    using assms(1) by (simp add: last_conv_nth splitFrustum_length flip: length_0_conv)
  also have "\<dots> = splitAt md count nr fr lam count"
    using assms(1) by (simp add: splitFrustum_nth)
  finally show ?thesis using splitAt_last[OF assms] by simp
qed


section \<open>What one call of update computes\<close>

lemma FrustumCorners_split_length: "length (FrustumCorners_split f n fa xs) = length xs"
  by (cases xs rule: rev_cases) (simp_all add: FrustumCorners_split_def)

lemma updateIntervals_lengths:
  "length (frusta (updateIntervals sfc cam s)) = length (cascades s)"
  "length (cascades (updateIntervals sfc cam s)) = length (cascades s)"
  by (simp_all add: updateIntervals_def Let_def FrustumCorners_split_length splitFrustum_length
      cascadeCount_def setIntervals_def)

lemma updateIntervals_config:
  "cascadeSize (updateIntervals sfc cam s) = cascadeSize s"
  "far (updateIntervals sfc cam s) = far s"
  "mode (updateIntervals sfc cam s) = mode s"
  "lambda (updateIntervals sfc cam s) = lambda s"
  "margin (updateIntervals sfc cam s) = margin s"
  "fade (updateIntervals sfc cam s) = fade s"
  by (simp_all add: updateIntervals_def Let_def)

lemma updateIntervals_splits:
  "splits (updateIntervals sfc cam s) =
     splitFrustum (mode s) (cascadeCount s) (camera_near cam) (min (far s) (camera_far cam))
       (lambda s)"
  by (simp add: updateIntervals_def Let_def)

lemma updateIntervals_frusta:
  "frusta (updateIntervals sfc cam s) =
     FrustumCorners_split (sfc cam (min (far s) (camera_far cam))) (camera_near cam)
       (min (far s) (camera_far cam)) (splits (updateIntervals sfc cam s))"
  by (simp add: updateIntervals_def Let_def)

lemma updateIntervals_nth:
  "i < length (cascades s) \<Longrightarrow> cascades (updateIntervals sfc cam s) ! i =
     (cascades s ! i)\<lparr>interval :=
        Vector2 (nthOr0 (splits (updateIntervals sfc cam s)) (int i - 1))
                (nthOr0 (splits (updateIntervals sfc cam s)) (int i))\<rparr>"
  by (simp add: updateIntervals_def Let_def setIntervals_def)

lemma cascadeProjection_cong:
  "fade a = fade b \<Longrightarrow> far a = far b \<Longrightarrow> margin a = margin b \<Longrightarrow>
   cascadeProjection a cam f = cascadeProjection b cam f"
  by (simp add: cascadeProjection_def getFrustumRadius_def Let_def)

text \<open>
  \<open>update\<close> never fails, keeps the configuration and the number of cascades, and
  leaves in cascade \<open>i\<close> the values of the four loops.
\<close>

lemma update_result:
  "\<exists>s'. update sfc g cam sun s = Inr s'
     \<and> length (cascades s') = length (cascades s)
     \<and> length (frusta s') = length (cascades s)
     \<and> frusta s' = FrustumCorners_split (sfc cam (min (far s) (camera_far cam)))
                      (camera_near cam) (min (far s) (camera_far cam)) (splits s')
     \<and> splits s' = splitFrustum (mode s) (cascadeCount s) (camera_near cam)
                      (min (far s) (camera_far cam)) (lambda s)
     \<and> cascadeSize s' = cascadeSize s \<and> far s' = far s \<and> mode s' = mode s
     \<and> lambda s' = lambda s \<and> margin s' = margin s \<and> fade s' = fade s
     \<and> (\<forall>i < length (cascades s).
          interval (cascades s' ! i) =
            Vector2 (nthOr0 (splits s') (int i - 1)) (nthOr0 (splits s') (int i))
        \<and> projectionMatrix (cascades s' ! i) = cascadeProjection s' cam (frusta s' ! i)
        \<and> inverseViewMatrix (cascades s' ! i) =
            (let center = lightTarget (margin s') (cascadeSize s') cam sun (frusta s' ! i)
                            (projectionMatrix (cascades s' ! i));
                 position = lightPosition sun (lightDistance g cam sun) center
             in setPosition (lookAt (inverseViewMatrix (cascades s ! i)) center position
                               DEFAULT_UP) position)
        \<and> inverseProjectionMatrix (cascades s' ! i) = invert (projectionMatrix (cascades s' ! i))
        \<and> viewMatrix (cascades s' ! i) = invert (inverseViewMatrix (cascades s' ! i))
        \<and> matrix (cascades s' ! i) =
            multiplyMatrices (projectionMatrix (cascades s' ! i)) (viewMatrix (cascades s' ! i))
        \<and> inverseMatrix (cascades s' ! i) =
            multiplyMatrices (inverseViewMatrix (cascades s' ! i))
              (inverseProjectionMatrix (cascades s' ! i)))"
proof -
  let ?s0 = "updateIntervals sfc cam s"
  have len: "length (frusta ?s0) = length (cascades ?s0)"
    by (simp add: updateIntervals_lengths)
  have cp: "cascadeProjection (?s0\<lparr>cascades := cs\<rparr>) cam f = cascadeProjection ?s0 cam f" for f cs
    by (rule cascadeProjection_cong) simp_all
  show ?thesis
    using len
    by (simp add: update_def updateProjectionMatrix_def updateInverseViewMatrix_def Let_def
        updateIntervals_lengths updateIntervals_config updateIntervals_frusta
        updateIntervals_splits updateIntervals_nth cp placeLight_def deriveMatrices_def)
qed

section \<open>The example, evaluated\<close>

lemma sqrt_values: "sqrt 100 = 10" "sqrt 169 = 13" "sqrt 1000000 = 1000"
  using real_sqrt_abs [of 10] real_sqrt_abs [of 13] real_sqrt_abs [of 1000] by simp_all

lemma example_lightOrientationMatrix: "lightOrientationMatrix exampleSun = Matrix4_new"
  by (simp add: lightOrientationMatrix_def exampleSun_def lookAt_def lookAt_z_def Let_def
      setScalar_def multiplyScalar_def subVectors_def lengthSq_def normalize3_def vlength_def
      divideScalar_def crossVectors_def DEFAULT_UP_def Matrix4_new_def)

lemma invert_identity: "invert Matrix4_new = Matrix4_new"
  by (simp add: invert_def Matrix4_new_def determinant_def determinant_t11_def
      determinant_t12_def determinant_t13_def determinant_t14_def Let_def)

lemma multiplyMatrices_identity: "multiplyMatrices Matrix4_new m = m"
  by (cases m) (simp add: multiplyMatrices_def Matrix4_new_def Let_def)

lemma example_cameraToLightMatrix:
  "cameraToLightMatrix exampleCamera exampleSun = matrixWorld exampleCamera"
  by (simp add: cameraToLightMatrix_def example_lightOrientationMatrix invert_identity
      multiplyMatrices_identity)

lemma example_getFrustumRadius:
  "fade s \<Longrightarrow> far s = 10000 \<Longrightarrow> getFrustumRadius s exampleCamera exampleFrustum = 31 / 2"
  by (simp add: getFrustumRadius_def exampleCamera_def exampleFrustum_def Let_def
      distanceTo_def distanceToSquared_def sqrt_values)

lemma example_cascadeProjection:
  "fade s \<Longrightarrow> far s = 10000 \<Longrightarrow> margin s = 1 \<Longrightarrow>
   cascadeProjection s exampleCamera exampleFrustum =
     Matrix4 (2 / 31) 0 0 0  0 (2 / 31) 0 0  0 0 (- (2 / 33)) 0  0 0 (- (31 / 33)) 1"
  by (simp add: cascadeProjection_def example_getFrustumRadius makeOrthographic_def Let_def)

lemma example_lightSpaceFrustum:
  "FrustumCorners_applyMatrix4 exampleFrustum (matrixWorld exampleCamera) =
     \<lparr> corners_near = Corners (Vector3 (2 / 5) (3 / 5) 0) (Vector3 (2 / 5) (3 / 5) 0)
                              (Vector3 (2 / 5) (3 / 5) 0) (Vector3 (2 / 5) (3 / 5) 0),
       corners_far = Corners (Vector3 (17 / 5) (23 / 5) (- 12)) (Vector3 (17 / 5) (- (17 / 5)) (- 12))
                             (Vector3 (- (13 / 5)) (- (17 / 5)) (- 12)) (Vector3 (- (13 / 5)) (23 / 5) (- 12)) \<rparr>"
  by (simp add: FrustumCorners_applyMatrix4_def mapCorners_def applyMatrix4_def
      exampleCamera_def exampleFrustum_def Let_def)

lemma example_fold:
  "fold (\<lambda>p bbox. expandByPoint bbox p)
     [Vector3 (2 / 5) (3 / 5) 0, Vector3 (17 / 5) (23 / 5) (- 12),
      Vector3 (2 / 5) (3 / 5) 0, Vector3 (17 / 5) (- (17 / 5)) (- 12),
      Vector3 (2 / 5) (3 / 5) 0, Vector3 (- (13 / 5)) (- (17 / 5)) (- 12),
      Vector3 (2 / 5) (3 / 5) 0, Vector3 (- (13 / 5)) (23 / 5) (- 12)]
     makeEmpty = Box3 (Vector3 (- (13 / 5)) (- (17 / 5)) (- 12)) (Vector3 (17 / 5) (23 / 5) 0)"
  by (simp add: makeEmpty_def vmin_def vmax_def)

lemma example_lightSpaceBox:
  "lightSpaceBox (matrixWorld exampleCamera) exampleFrustum =
     Box3 (Vector3 (- (13 / 5)) (- (17 / 5)) (- 12)) (Vector3 (17 / 5) (23 / 5) 0)"
  by (simp only: lightSpaceBox_def example_lightSpaceFrustum Let_def FrustumCorners.simps
      Corners.sel example_fold)

lemma example_lightSpaceCenter:
  "lightSpaceCenter 1 (Box3 (Vector3 (- (13 / 5)) (- (17 / 5)) (- 12)) (Vector3 (17 / 5) (23 / 5) 0))
     = Vector3 (2 / 5) (3 / 5) 1"
  by (simp add: lightSpaceCenter_def addVectors_def multiplyScalar_def Let_def)

lemma example_texelSize:
  "texelSize 31 (Matrix4 (2 / 31) 0 0 0  0 (2 / 31) 0 0  0 0 (- (2 / 33)) 0  0 0 (- (31 / 33)) 1) = (1, 1)"
  by (simp add: texelSize_def extractOrthographicTuple_def Let_def)

lemma example_snapCenter:
  "snapCenter 31 (Matrix4 (2 / 31) 0 0 0  0 (2 / 31) 0 0  0 0 (- (2 / 33)) 0  0 0 (- (31 / 33)) 1)
     (Vector3 (2 / 5) (3 / 5) 1) = Vector3 0 1 1"
  by (simp add: snapCenter_def example_texelSize Math_round_def)

lemma example_lightTarget:
  "lightTarget 1 31 exampleCamera exampleSun exampleFrustum
     (Matrix4 (2 / 31) 0 0 0  0 (2 / 31) 0 0  0 0 (- (2 / 33)) 0  0 0 (- (31 / 33)) 1) = Vector3 0 1 1"
  by (simp add: lightTarget_def example_cameraToLightMatrix example_lightSpaceBox
      example_lightOrientationMatrix example_lightSpaceCenter example_snapCenter
      applyMatrix4_def Matrix4_new_def Let_def)

lemma example_lightDistance:
  "lightDistance (\<lambda>p. Vector3 0 0 1) exampleCamera exampleSun = 1000"
  by (simp add: lightDistance_def zenithAngle_def lerp_def dot_def exampleSun_def Let_def)

lemma example_lightPosition: "lightPosition exampleSun 1000 (Vector3 0 1 1) = Vector3 0 1 1001"
  by (simp add: lightPosition_def exampleSun_def addVectors_def multiplyScalar_def)

lemma example_lookAt:
  "lookAt Matrix4_new (Vector3 0 1 1) (Vector3 0 1 1001) DEFAULT_UP =
     Matrix4 (- 1) 0 0 0  0 1 0 0  0 0 (- 1) 0  0 0 0 1"
  by (simp add: lookAt_def lookAt_z_def Let_def subVectors_def lengthSq_def normalize3_def
      vlength_def divideScalar_def multiplyScalar_def crossVectors_def DEFAULT_UP_def
      Matrix4_new_def sqrt_values)

lemma example_lookAt_swapped:
  "lookAt Matrix4_new (Vector3 0 1 1001) (Vector3 0 1 1) DEFAULT_UP = Matrix4_new"
  by (simp add: lookAt_def lookAt_z_def Let_def subVectors_def lengthSq_def normalize3_def
      vlength_def divideScalar_def multiplyScalar_def crossVectors_def DEFAULT_UP_def
      Matrix4_new_def sqrt_values)

lemma example_splits: "splitFrustum Uniform (Suc 0) 1 3 l = [3]"
  by (simp add: splitFrustum_def uniformSplit_def)

lemma example_frusta: "FrustumCorners_split exampleFrustum 1 3 [3] = [exampleFrustum]"
  by (simp add: FrustumCorners_split_def cornersAt_def lerpVectors_def exampleFrustum_def Let_def)

text \<open>The state after \<open>update\<close> at the example.\<close>

lemma example_update:
  "\<exists>s'. update (\<lambda>c f. exampleFrustum) (\<lambda>p. Vector3 0 0 1) exampleCamera exampleSun
           exampleShadows = Inr s'
     \<and> cascadeCount s' = 1 \<and> frusta s' = [exampleFrustum] \<and> splits s' = [3]
     \<and> cascadeSize s' = 31 \<and> far s' = 10000 \<and> margin s' = 1 \<and> fade s'
     \<and> interval (cascades s' ! 0) = Vector2 0 3
     \<and> projectionMatrix (cascades s' ! 0) =
         Matrix4 (2 / 31) 0 0 0  0 (2 / 31) 0 0  0 0 (- (2 / 33)) 0  0 0 (- (31 / 33)) 1
     \<and> inverseViewMatrix (cascades s' ! 0) =
         Matrix4 (- 1) 0 0 0  0 1 0 0  0 0 (- 1) 0  0 1 1001 1
     \<and> viewMatrix (cascades s' ! 0) = invert (Matrix4 (- 1) 0 0 0  0 1 0 0  0 0 (- 1) 0  0 1 1001 1)"
proof -
  obtain s' where s': "update (\<lambda>c f. exampleFrustum) (\<lambda>p. Vector3 0 0 1) exampleCamera exampleSun
           exampleShadows = Inr s'"
    and len: "length (cascades s') = length (cascades exampleShadows)"
    and fr: "frusta s' = FrustumCorners_split exampleFrustum (camera_near exampleCamera)
               (min (far exampleShadows) (camera_far exampleCamera)) (splits s')"
    and sp: "splits s' = splitFrustum (mode exampleShadows) (cascadeCount exampleShadows)
               (camera_near exampleCamera) (min (far exampleShadows) (camera_far exampleCamera))
               (lambda exampleShadows)"
    and cfg: "cascadeSize s' = cascadeSize exampleShadows" "far s' = far exampleShadows"
      "margin s' = margin exampleShadows" "fade s' = fade exampleShadows"
    and each: "\<forall>i < length (cascades exampleShadows).
          interval (cascades s' ! i) =
            Vector2 (nthOr0 (splits s') (int i - 1)) (nthOr0 (splits s') (int i))
        \<and> projectionMatrix (cascades s' ! i) = cascadeProjection s' exampleCamera (frusta s' ! i)
        \<and> inverseViewMatrix (cascades s' ! i) =
            (let center = lightTarget (margin s') (cascadeSize s') exampleCamera exampleSun
                            (frusta s' ! i) (projectionMatrix (cascades s' ! i));
                 position = lightPosition exampleSun
                              (lightDistance (\<lambda>p. Vector3 0 0 1) exampleCamera exampleSun) center
             in setPosition (lookAt (inverseViewMatrix (cascades exampleShadows ! i)) center
                               position DEFAULT_UP) position)
        \<and> viewMatrix (cascades s' ! i) = invert (inverseViewMatrix (cascades s' ! i))"
    using update_result [of "\<lambda>c f. exampleFrustum" "\<lambda>p. Vector3 0 0 1" exampleCamera exampleSun
        exampleShadows]
    by blast
  have sp': "splits s' = [3]"
    using sp by (simp add: exampleShadows_def exampleCamera_def cascadeCount_def example_splits)
  have fr': "frusta s' = [exampleFrustum]"
    using fr sp' by (simp add: exampleShadows_def exampleCamera_def example_frusta)
  have cfg': "cascadeSize s' = 31" "far s' = 10000" "margin s' = 1" "fade s'"
    using cfg by (simp_all add: exampleShadows_def)
  have cnt: "cascadeCount s' = 1"
    using len by (simp add: cascadeCount_def exampleShadows_def)
  have e0: "interval (cascades s' ! 0) =
            Vector2 (nthOr0 (splits s') (int 0 - 1)) (nthOr0 (splits s') (int 0))"
    and p0: "projectionMatrix (cascades s' ! 0) = cascadeProjection s' exampleCamera (frusta s' ! 0)"
    and v0: "inverseViewMatrix (cascades s' ! 0) =
            (let center = lightTarget (margin s') (cascadeSize s') exampleCamera exampleSun
                            (frusta s' ! 0) (projectionMatrix (cascades s' ! 0));
                 position = lightPosition exampleSun
                              (lightDistance (\<lambda>p. Vector3 0 0 1) exampleCamera exampleSun) center
             in setPosition (lookAt (inverseViewMatrix (cascades exampleShadows ! 0)) center
                               position DEFAULT_UP) position)"
    and w0: "viewMatrix (cascades s' ! 0) = invert (inverseViewMatrix (cascades s' ! 0))"
    using each by (simp_all add: exampleShadows_def)
  have i0: "interval (cascades s' ! 0) = Vector2 0 3"
    using e0 sp' by (simp add: nthOr0_def)
  have p0': "projectionMatrix (cascades s' ! 0) =
         Matrix4 (2 / 31) 0 0 0  0 (2 / 31) 0 0  0 0 (- (2 / 33)) 0  0 0 (- (31 / 33)) 1"
    using p0 fr' cfg' by (simp add: example_cascadeProjection)
  have old: "inverseViewMatrix (cascades exampleShadows ! 0) = Matrix4_new"
    by (simp add: exampleShadows_def newCascade_def)
  have v0': "inverseViewMatrix (cascades s' ! 0) =
         Matrix4 (- 1) 0 0 0  0 1 0 0  0 0 (- 1) 0  0 1 1001 1"
    unfolding v0 fr' cfg' p0' old
    by (simp add: example_lightTarget example_lightDistance example_lightPosition
        example_lookAt setPosition_def)
  show ?thesis
    using s' cnt fr' sp' cfg' i0 p0' v0' w0 by simp
qed

section \<open>The intervals\<close>

lemma nthOr0_nth: "i < length xs \<Longrightarrow> nthOr0 xs (int i) = xs ! i"
  by (simp add: nthOr0_def)

lemma nthOr0_pred:
  "i < length xs \<Longrightarrow> nthOr0 xs (int i - 1) = (if i = 0 then 0 else xs ! (i - 1))"
  by (cases i) (simp_all add: nthOr0_def)

text \<open>The intervals that \<open>update\<close> leaves, read off the split distances.\<close>

lemma update_intervals:
  assumes "update sfc g cam sun s = Inr s'"
  shows "length (splits s') = cascadeCount s'"
    and "splits s' = splitFrustum (mode s') (cascadeCount s') (camera_near cam)
                       (min (far s') (camera_far cam)) (lambda s')"
    and "i < cascadeCount s' \<Longrightarrow> interval (cascades s' ! i) =
           Vector2 (if i = 0 then 0 else splits s' ! (i - 1)) (splits s' ! i)"
proof -
  from update_result [of sfc g cam sun s] assms
  have len: "length (cascades s') = length (cascades s)"
    and sp: "splits s' = splitFrustum (mode s) (cascadeCount s) (camera_near cam)
                      (min (far s) (camera_far cam)) (lambda s)"
    and cfg: "far s' = far s" "mode s' = mode s" "lambda s' = lambda s"
    and each: "\<forall>i < length (cascades s). interval (cascades s' ! i) =
            Vector2 (nthOr0 (splits s') (int i - 1)) (nthOr0 (splits s') (int i))"
    by auto
  have cnt: "cascadeCount s' = cascadeCount s"
    using len by (simp add: cascadeCount_def)
  show l: "length (splits s') = cascadeCount s'"
    using sp cnt by (simp add: splitFrustum_length)
  show "splits s' = splitFrustum (mode s') (cascadeCount s') (camera_near cam)
                       (min (far s') (camera_far cam)) (lambda s')"
    using sp cnt cfg by simp
  show "interval (cascades s' ! i) =
           Vector2 (if i = 0 then 0 else splits s' ! (i - 1)) (splits s' ! i)"
    if "i < cascadeCount s'"
    using that each l cnt by (simp add: cascadeCount_def nthOr0_nth nthOr0_pred)
qed

lemma example4_cascades: "cascades (set_cascadeCount 4 exampleShadows) =
    [newCascade, newCascade, newCascade, newCascade]"
  by (simp add: set_cascadeCount_def exampleShadows_def cascadeCount_def numeral_nat)

lemma example4_config:
  "mode (set_cascadeCount 4 exampleShadows) = Uniform"
  "far (set_cascadeCount 4 exampleShadows) = 10000"
  "lambda (set_cascadeCount 4 exampleShadows) = 1 / 2"
  "cascadeCount (set_cascadeCount 4 exampleShadows) = 4"
  by (simp_all add: set_cascadeCount_def exampleShadows_def cascadeCount_def numeral_nat)

lemma example4_splits: "splitFrustum Uniform 4 1 3 l = [3 / 2, 2, 5 / 2, 3]"
  by (simp add: splitFrustum_def uniformSplit_def upt_rec)

lemma example4_update:
  "\<exists>s'. update (\<lambda>c f. exampleFrustum) (\<lambda>p. Vector3 0 0 1) exampleCamera exampleSun
           (set_cascadeCount 4 exampleShadows) = Inr s'
     \<and> cascadeCount s' = 4 \<and> splits s' = [3 / 2, 2, 5 / 2, 3]
     \<and> mode s' = Uniform \<and> far s' = 10000"
proof -
  obtain s' where s': "update (\<lambda>c f. exampleFrustum) (\<lambda>p. Vector3 0 0 1) exampleCamera exampleSun
           (set_cascadeCount 4 exampleShadows) = Inr s'"
    and len: "length (cascades s') = length (cascades (set_cascadeCount 4 exampleShadows))"
    and cfg: "mode s' = mode (set_cascadeCount 4 exampleShadows)"
       "far s' = far (set_cascadeCount 4 exampleShadows)"
    using update_result [of "\<lambda>c f. exampleFrustum" "\<lambda>p. Vector3 0 0 1" exampleCamera exampleSun
        "set_cascadeCount 4 exampleShadows"]
    by blast
  have c: "cascadeCount s' = 4"
    using len by (simp add: cascadeCount_def example4_cascades)
  have "splits s' = splitFrustum Uniform 4 1 3 (lambda s')"
    using update_intervals(2) [OF s'] c cfg by (simp add: example4_config exampleCamera_def)
  then show ?thesis using s' c cfg by (simp add: example4_splits example4_config)
qed

section \<open>Texel snapping, in general\<close>

lemma extractOrthographicTuple_makeOrthographic:
  assumes "right \<noteq> left" and "top' \<noteq> bottom"
  shows "extractOrthographicTuple (makeOrthographic left right top' bottom n f) =
           (left, right, top', bottom)"
proof -
  have d: "right - left \<noteq> 0" "top' - bottom \<noteq> 0" using assms by simp_all
  have RmL: "2 / (2 * (1 / (right - left))) = right - left"
    using d by simp
  have TmB: "2 / (2 * (1 / (top' - bottom))) = top' - bottom"
    using d by simp
  have RpL: "(right - left) * ((right + left) * (1 / (right - left))) = right + left"
    using d by simp
  have TpB: "(top' - bottom) * ((top' + bottom) * (1 / (top' - bottom))) = top' + bottom"
    using d by simp
  show ?thesis
    unfolding extractOrthographicTuple_def makeOrthographic_def Let_def Matrix4.sel
      minus_minus RmL TmB RpL TpB
    by simp
qed

lemma Math_round_near: "\<bar>Math_round y - y\<bar> \<le> 1 / 2"
proof -
  have "of_int \<lfloor>y + 1 / 2\<rfloor> \<le> y + 1 / 2" "y + 1 / 2 < of_int \<lfloor>y + 1 / 2\<rfloor> + 1"
    by linarith+
  then show ?thesis unfolding Math_round_def by linarith
qed

lemma snap_nearest:
  assumes "w \<noteq> 0"
  shows "\<bar>Math_round (x / w) * w - x\<bar> \<le> \<bar>w\<bar> / 2"
proof -
  have "Math_round (x / w) * w - x = (Math_round (x / w) - x / w) * w"
    using assms by (simp add: field_simps)
  then have "\<bar>Math_round (x / w) * w - x\<bar> = \<bar>Math_round (x / w) - x / w\<bar> * \<bar>w\<bar>"
    by (simp add: abs_mult)
  also have "\<dots> \<le> (1 / 2) * \<bar>w\<bar>"
    by (intro mult_right_mono Math_round_near) simp
  finally show ?thesis by simp
qed

lemma snap_multiple: "\<exists>k::int. Math_round (x / w) * w = of_int k * w"
  unfolding Math_round_def by blast

lemma invert_values:
  "invert (Matrix4 (- 1) 0 0 0  0 1 0 0  0 0 (- 1) 0  0 1 1001 1) =
     Matrix4 (- 1) 0 0 0  0 1 0 0  0 0 (- 1) 0  0 (- 1) 1001 1"
  "invert (Matrix4 1 0 0 0  0 1 0 0  0 0 1 0  0 1 1001 1) =
     Matrix4 1 0 0 0  0 1 0 0  0 0 1 0  0 (- 1) (- 1001) 1"
  by (simp_all add: invert_def determinant_def determinant_t11_def determinant_t12_def
      determinant_t13_def determinant_t14_def Let_def)

section \<open>Resizing the cascade array\<close>

lemma fillRefs_eq:
  "i \<le> length (refs h) \<Longrightarrow>
   fillRefs i n h =
     \<lparr> store = store h @ replicate (i + n - length (refs h)) newCascade,
       refs = refs h @ [length (store h)..<length (store h) + (i + n - length (refs h))] \<rparr>"
proof (induction n arbitrary: i h)
  case 0
  then show ?case by simp
next
  case (Suc n)
  show ?case
  proof (cases "i < length (refs h)")
    case True
    then have "fillRefs i (Suc n) h = fillRefs (Suc i) n h" by simp
    also have "\<dots> = \<lparr> store = store h @ replicate (Suc i + n - length (refs h)) newCascade,
       refs = refs h @ [length (store h)..<length (store h) + (Suc i + n - length (refs h))] \<rparr>"
      using True by (intro Suc.IH) simp
    finally show ?thesis by simp
  next
    case False
    with Suc.prems have eq: "i = length (refs h)" by simp
    let ?h = "\<lparr> store = store h @ [newCascade], refs = refs h @ [length (store h)] \<rparr>"
    have "fillRefs i (Suc n) h = fillRefs (Suc i) n ?h" using False by simp
    also have "\<dots> = \<lparr> store = store ?h @ replicate (Suc i + n - length (refs ?h)) newCascade,
       refs = refs ?h @ [length (store ?h)..<length (store ?h) + (Suc i + n - length (refs ?h))] \<rparr>"
      using eq by (intro Suc.IH) simp
    finally show ?thesis
      using eq by (simp add: replicate_app_Cons_same upt_rec [of "length (store h)"])
  qed
qed

lemma fillCascades_eq:
  "i \<le> length cs \<Longrightarrow> fillCascades i n cs = cs @ replicate (i + n - length cs) newCascade"
proof (induction n arbitrary: i cs)
  case 0
  then show ?case by simp
next
  case (Suc n)
  show ?case
  proof (cases "i < length cs")
    case True
    then show ?thesis using Suc.IH [of "Suc i" cs] by simp
  next
    case False
    with Suc.prems have eq: "i = length cs" by simp
    then show ?thesis
      using Suc.IH [of "Suc i" "cs @ [newCascade]"] by (simp add: replicate_app_Cons_same)
  qed
qed

lemma set_cascadeCount_refs_eq:
  "set_cascadeCount_refs v h =
     \<lparr> store = store h @ replicate (v - length (refs h)) newCascade,
       refs = take v (refs h) @ [length (store h)..<length (store h) + (v - length (refs h))] \<rparr>"
proof (cases "v = length (refs h)")
  case True
  then show ?thesis by (simp add: set_cascadeCount_refs_def)
next
  case False
  then show ?thesis
    by (simp add: set_cascadeCount_refs_def fillRefs_eq Let_def)
qed

lemma set_cascadeCount_eq:
  "cascades (set_cascadeCount v s) =
     take v (cascades s) @ replicate (v - length (cascades s)) newCascade"
  by (cases "v = length (cascades s)")
     (simp_all add: set_cascadeCount_def cascadeCount_def fillCascades_eq)

text \<open>The array of references denotes the array of the value model.\<close>

lemma set_cascadeCount_refs_deref:
  assumes "\<forall>r \<in> set (refs h). r < length (store h)"
    and "cascades s = deref h"
  shows "deref (set_cascadeCount_refs v h) = cascades (set_cascadeCount v s)"
proof -
  let ?k = "v - length (refs h)"
  let ?L = "length (store h)"
  have old: "map (\<lambda>r. (store h @ replicate ?k newCascade) ! r) (take v (refs h)) =
             take v (map (\<lambda>r. store h ! r) (refs h))"
    unfolding take_map
    by (rule map_cong) (use assms(1) in \<open>auto simp: nth_append dest: in_set_takeD\<close>)
  have new: "map (\<lambda>r. (store h @ replicate ?k newCascade) ! r) [?L..<?L + ?k] =
             replicate ?k newCascade"
    by (rule nth_equalityI) (simp_all add: nth_append)
  show ?thesis
    unfolding set_cascadeCount_eq assms(2)
    by (simp add: deref_def set_cascadeCount_refs_eq old new)
qed

section \<open>The third column of a look-at matrix\<close>

lemma lengthSq_zero_iff: "lengthSq v = 0 \<longleftrightarrow> v = Vector3 0 0 0"
proof (cases v)
  case (Vector3 a b c)
  have "a * a + b * b + c * c = 0 \<longleftrightarrow> a = 0 \<and> b = 0 \<and> c = 0"
  proof
    assume h: "a * a + b * b + c * c = 0"
    have "0 \<le> a * a" "0 \<le> b * b" "0 \<le> c * c" by simp_all
    with h have "a * a = 0" "b * b = 0" "c * c = 0" by linarith+
    then show "a = 0 \<and> b = 0 \<and> c = 0" by simp
  qed simp
  with Vector3 show ?thesis by (simp add: lengthSq_def)
qed

lemma lookAt_third_column:
  assumes "crossVectors up (subVectors eye target) \<noteq> Vector3 0 0 0"
  shows "Vector3 (te8 (lookAt m eye target up)) (te9 (lookAt m eye target up))
           (te10 (lookAt m eye target up)) = normalize3 (subVectors eye target)"
proof -
  let ?v = "subVectors eye target"
  have v: "?v \<noteq> Vector3 0 0 0"
    using assms by (auto simp: crossVectors_def)
  then have l: "lengthSq ?v \<noteq> 0" by (simp add: lengthSq_zero_iff)
  have "0 \<le> lengthSq ?v" by (simp add: lengthSq_def)
  with l have pos: "0 < vlength ?v" by (simp add: vlength_def)
  have z: "lookAt_z eye target = normalize3 ?v"
    using l by (simp add: lookAt_z_def Let_def)
  have c: "crossVectors up (normalize3 ?v) = multiplyScalar (crossVectors up ?v) (1 / vlength ?v)"
    using pos by (simp add: normalize3_def divideScalar_def multiplyScalar_def crossVectors_def
        algebra_simps)
  have "crossVectors up (normalize3 ?v) \<noteq> Vector3 0 0 0"
  proof
    assume "crossVectors up (normalize3 ?v) = Vector3 0 0 0"
    with c have "multiplyScalar (crossVectors up ?v) (1 / vlength ?v) = Vector3 0 0 0" by simp
    with pos have "crossVectors up ?v = Vector3 0 0 0"
      by (cases "crossVectors up ?v") (simp add: multiplyScalar_def)
    with assms show False by simp
  qed
  then have x: "lengthSq (crossVectors up (normalize3 ?v)) \<noteq> 0"
    by (simp add: lengthSq_zero_iff)
  show ?thesis
    using x by (simp add: lookAt_def Let_def z)
qed

section \<open>No stale data survives update\<close>

lemma lookAt_receiver:
  assumes "te3 m = te3 m'" "te7 m = te7 m'" "te11 m = te11 m'" "te15 m = te15 m'"
  shows "setPosition (lookAt m e t u) p = setPosition (lookAt m' e t u) p"
  using assms by (simp add: setPosition_def lookAt_def Let_def)

lemma update_recomputes:
  assumes cfg: "cascadeSize a = cascadeSize b" "far a = far b" "mode a = mode b"
      "lambda a = lambda b" "margin a = margin b" "fade a = fade b"
    and len: "length (cascades a) = length (cascades b)"
    and row: "\<forall>i < length (cascades a).
        te3 (inverseViewMatrix (cascades a ! i)) = te3 (inverseViewMatrix (cascades b ! i))
      \<and> te7 (inverseViewMatrix (cascades a ! i)) = te7 (inverseViewMatrix (cascades b ! i))
      \<and> te11 (inverseViewMatrix (cascades a ! i)) = te11 (inverseViewMatrix (cascades b ! i))
      \<and> te15 (inverseViewMatrix (cascades a ! i)) = te15 (inverseViewMatrix (cascades b ! i))"
  shows "update sfc g cam sun a = update sfc g cam sun b"
proof -
  obtain a' where a': "update sfc g cam sun a = Inr a'"
    and la: "length (cascades a') = length (cascades a)"
    and fa: "frusta a' = FrustumCorners_split (sfc cam (min (far a) (camera_far cam)))
                      (camera_near cam) (min (far a) (camera_far cam)) (splits a')"
    and sa: "splits a' = splitFrustum (mode a) (cascadeCount a) (camera_near cam)
                      (min (far a) (camera_far cam)) (lambda a)"
    and ca: "cascadeSize a' = cascadeSize a" "far a' = far a" "mode a' = mode a"
      "lambda a' = lambda a" "margin a' = margin a" "fade a' = fade a"
    and ea: "\<forall>i < length (cascades a).
          interval (cascades a' ! i) =
            Vector2 (nthOr0 (splits a') (int i - 1)) (nthOr0 (splits a') (int i))
        \<and> projectionMatrix (cascades a' ! i) = cascadeProjection a' cam (frusta a' ! i)
        \<and> inverseViewMatrix (cascades a' ! i) =
            (let center = lightTarget (margin a') (cascadeSize a') cam sun (frusta a' ! i)
                            (projectionMatrix (cascades a' ! i));
                 position = lightPosition sun (lightDistance g cam sun) center
             in setPosition (lookAt (inverseViewMatrix (cascades a ! i)) center position
                               DEFAULT_UP) position)
        \<and> inverseProjectionMatrix (cascades a' ! i) = invert (projectionMatrix (cascades a' ! i))
        \<and> viewMatrix (cascades a' ! i) = invert (inverseViewMatrix (cascades a' ! i))
        \<and> matrix (cascades a' ! i) =
            multiplyMatrices (projectionMatrix (cascades a' ! i)) (viewMatrix (cascades a' ! i))
        \<and> inverseMatrix (cascades a' ! i) =
            multiplyMatrices (inverseViewMatrix (cascades a' ! i))
              (inverseProjectionMatrix (cascades a' ! i))"
    using update_result [of sfc g cam sun a] by blast
  obtain b' where b': "update sfc g cam sun b = Inr b'"
    and lb: "length (cascades b') = length (cascades b)"
    and fb: "frusta b' = FrustumCorners_split (sfc cam (min (far b) (camera_far cam)))
                      (camera_near cam) (min (far b) (camera_far cam)) (splits b')"
    and sb: "splits b' = splitFrustum (mode b) (cascadeCount b) (camera_near cam)
                      (min (far b) (camera_far cam)) (lambda b)"
    and cb: "cascadeSize b' = cascadeSize b" "far b' = far b" "mode b' = mode b"
      "lambda b' = lambda b" "margin b' = margin b" "fade b' = fade b"
    and eb: "\<forall>i < length (cascades b).
          interval (cascades b' ! i) =
            Vector2 (nthOr0 (splits b') (int i - 1)) (nthOr0 (splits b') (int i))
        \<and> projectionMatrix (cascades b' ! i) = cascadeProjection b' cam (frusta b' ! i)
        \<and> inverseViewMatrix (cascades b' ! i) =
            (let center = lightTarget (margin b') (cascadeSize b') cam sun (frusta b' ! i)
                            (projectionMatrix (cascades b' ! i));
                 position = lightPosition sun (lightDistance g cam sun) center
             in setPosition (lookAt (inverseViewMatrix (cascades b ! i)) center position
                               DEFAULT_UP) position)
        \<and> inverseProjectionMatrix (cascades b' ! i) = invert (projectionMatrix (cascades b' ! i))
        \<and> viewMatrix (cascades b' ! i) = invert (inverseViewMatrix (cascades b' ! i))
        \<and> matrix (cascades b' ! i) =
            multiplyMatrices (projectionMatrix (cascades b' ! i)) (viewMatrix (cascades b' ! i))
        \<and> inverseMatrix (cascades b' ! i) =
            multiplyMatrices (inverseViewMatrix (cascades b' ! i))
              (inverseProjectionMatrix (cascades b' ! i))"
    using update_result [of sfc g cam sun b] by blast
  have sp: "splits a' = splits b'"
    using sa sb cfg len by (simp add: cascadeCount_def)
  have fr: "frusta a' = frusta b'"
    using fa fb sp cfg by simp
  have cfg': "cascadeSize a' = cascadeSize b'" "far a' = far b'" "mode a' = mode b'"
      "lambda a' = lambda b'" "margin a' = margin b'" "fade a' = fade b'"
    using ca cb cfg by simp_all
  have cs: "cascades a' = cascades b'"
  proof (rule nth_equalityI)
    show "length (cascades a') = length (cascades b')" using la lb len by simp
  next
    fix i assume "i < length (cascades a')"
    then have i: "i < length (cascades a)" "i < length (cascades b)" using la len by simp_all
    note A = ea [rule_format, OF i(1)]
    note B = eb [rule_format, OF i(2)]
    have iv: "interval (cascades a' ! i) = interval (cascades b' ! i)"
      using A B sp by simp
    have pm: "projectionMatrix (cascades a' ! i) = projectionMatrix (cascades b' ! i)"
      using A B fr cascadeProjection_cong [OF cfg'(6,2,5)] by simp
    have vm: "inverseViewMatrix (cascades a' ! i) = inverseViewMatrix (cascades b' ! i)"
    proof -
      have "inverseViewMatrix (cascades a' ! i) =
            (let center = lightTarget (margin a') (cascadeSize a') cam sun (frusta a' ! i)
                            (projectionMatrix (cascades a' ! i));
                 position = lightPosition sun (lightDistance g cam sun) center
             in setPosition (lookAt (inverseViewMatrix (cascades a ! i)) center position
                               DEFAULT_UP) position)"
        using A by blast
      also have "\<dots> =
            (let center = lightTarget (margin b') (cascadeSize b') cam sun (frusta b' ! i)
                            (projectionMatrix (cascades b' ! i));
                 position = lightPosition sun (lightDistance g cam sun) center
             in setPosition (lookAt (inverseViewMatrix (cascades b ! i)) center position
                               DEFAULT_UP) position)"
        unfolding Let_def pm fr cfg'
        by (rule lookAt_receiver) (use row i in simp_all)
      also have "\<dots> = inverseViewMatrix (cascades b' ! i)"
        using B by simp
      finally show ?thesis .
    qed
    show "cascades a' ! i = cascades b' ! i"
      by (rule Cascade.equality) (use A B iv pm vm in simp_all)
  qed
  have "a' = b'"
    by (rule CascadedShadows.equality) (use cs fr sp cfg' in simp_all)
  then show ?thesis using a' b' by simp
qed

section \<open>The claims\<close>

subsection \<open>Frustum splitting\<close>

text \<open>
  C1, as stated, fails in three places. Its own example contradicts its own formula:
  with near 1, far 1000 and four cascades the uniform formula gives
  250.75, 500.5, 750.25, 1000 and not 250, 500, 750, 1000. The last split distance
  is \<open>far\<close> itself, which is not inside the open interval (near, far). And in the
  practical mode a \<open>lambda\<close> outside [0, 1] leaves the interval and breaks the
  order: with near 1, far 4, two cascades and lambda -4 the distances are 4.5, 4.
\<close>

theorem splitFrustum_example_counterexample:
  "splitFrustum Uniform 4 1 1000 (1 / 2) = [1003 / 4, 1001 / 2, 3001 / 4, 1000]
   \<and> splitFrustum Uniform 4 1 1000 (1 / 2) \<noteq> [250, 500, 750, 1000]
   \<and> splitFrustum Uniform 1 1 2 (1 / 2) = [2]
   \<and> \<not> (last (splitFrustum Uniform 1 1 2 (1 / 2)) < 2)
   \<and> splitFrustum Practical 2 1 4 (- 4) = [9 / 2, 4]
   \<and> \<not> sorted_wrt (<) (splitFrustum Practical 2 1 4 (- 4))"
  by (simp add: splitFrustum_def uniformSplit_def logarithmicSplit_def practicalSplit_def
      upt_rec powr_half_sqrt)

text \<open>
  C1, amended: for every mode, every count of at least 1 and every
  \<open>0 < near < far\<close>, with \<open>lambda\<close> in [0, 1] when the mode is practical,
  \<open>splitFrustum\<close> yields exactly \<open>count\<close> distances, strictly increasing, each
  greater than \<open>near\<close> and at most \<open>far\<close>, the last one equal to \<open>far\<close>; the
  \<open>i\<close>-th distance (from 1) follows the formula of its mode; a count of 1 yields the
  single distance \<open>far\<close>; and near 1, far 1000, count 4 in the uniform mode yield
  250.75, 500.5, 750.25, 1000.
\<close>

theorem splitFrustum_contract:
  assumes "1 \<le> count" and "0 < near" and "near < fr"
    and "md = Practical \<longrightarrow> 0 \<le> lam \<and> lam \<le> 1"
  shows "length (splitFrustum md count near fr lam) = count
    \<and> sorted_wrt (<) (splitFrustum md count near fr lam)
    \<and> (\<forall>d \<in> set (splitFrustum md count near fr lam). near < d \<and> d \<le> fr)
    \<and> last (splitFrustum md count near fr lam) = fr
    \<and> (\<forall>i < count. splitFrustum md count near fr lam ! i =
          (case md of
             Uniform \<Rightarrow> near + (fr - near) * real (i + 1) / real count
           | Logarithmic \<Rightarrow> near * (fr / near) powr (real (i + 1) / real count)
           | Practical \<Rightarrow>
               lam * (near * (fr / near) powr (real (i + 1) / real count))
               + (1 - lam) * (near + (fr - near) * real (i + 1) / real count)))
    \<and> splitFrustum md 1 near fr lam = [fr]
    \<and> splitFrustum Uniform 4 1 1000 lam = [1003 / 4, 1001 / 2, 3001 / 4, 1000]"
proof -
  have c: "0 < count" using assms(1) by simp
  have formula: "\<forall>i < count. splitFrustum md count near fr lam ! i =
          (case md of
             Uniform \<Rightarrow> near + (fr - near) * real (i + 1) / real count
           | Logarithmic \<Rightarrow> near * (fr / near) powr (real (i + 1) / real count)
           | Practical \<Rightarrow>
               lam * (near * (fr / near) powr (real (i + 1) / real count))
               + (1 - lam) * (near + (fr - near) * real (i + 1) / real count))"
    by (cases md) (simp_all add: splitFrustum_nth uniformSplit_def logarithmicSplit_def
        practicalSplit_def)
  have one: "splitFrustum md 1 near fr lam = [fr]"
    using splitAt_last [of 1 near fr md lam] assms(2,3) by (simp add: splitFrustum_def)
  have ex: "splitFrustum Uniform 4 1 1000 lam = [1003 / 4, 1001 / 2, 3001 / 4, 1000]"
    by (simp add: splitFrustum_def uniformSplit_def upt_rec)
  show ?thesis
    using splitFrustum_length [of md count near fr lam]
      splitFrustum_sorted [OF assms(2,3,4), of count]
      splitFrustum_range [OF assms(2,3,4), of _ count]
      splitFrustum_last [OF c assms(2,3), of md lam]
      formula one ex
    by blast
qed

text \<open>The practical mode with near 1, far 4, two cascades and lambda 1/2.\<close>

theorem splitFrustum_contract_witness:
  "splitFrustum Practical 2 1 4 (1 / 2) = [9 / 4, 4]
   \<and> sorted_wrt (<) (splitFrustum Practical 2 1 4 (1 / 2))
   \<and> list_all (\<lambda>d. 1 < d \<and> d \<le> 4) (splitFrustum Practical 2 1 4 (1 / 2))
   \<and> last (splitFrustum Practical 2 1 4 (1 / 2)) = 4"
proof -
  have v: "splitFrustum Practical 2 1 4 (1 / 2) = [9 / 4, 4]"
    by (simp add: splitFrustum_def uniformSplit_def logarithmicSplit_def practicalSplit_def
        upt_rec powr_half_sqrt)
  have h: "(1::nat) \<le> 2" "(0::real) < 1" "(1::real) < 4"
    "Practical = Practical \<longrightarrow> (0::real) \<le> 1 / 2 \<and> (1 / 2 :: real) \<le> 1"
    by simp_all
  show ?thesis
    using splitFrustum_contract [OF h] v by simp
qed

subsection \<open>The radius and the projection of a cascade\<close>

text \<open>
  C6: for every sub-frustum the fitted radius is half of a diagonal, the larger of
  the distances from far corner 0 to far corner 2 and from far corner 0 to near
  corner 2; when \<open>fade\<close> is set, \<open>0.25 * t\<^sup>2 * (far - near)\<close> is added to the
  diagonal first, where \<open>t\<close> is the z of far corner 0 divided by \<open>far - near\<close>,
  \<open>near\<close> is the camera's near plane and \<open>far\<close> the smaller of the configured
  far and the camera's far plane.
\<close>

theorem getFrustumRadius_formula:
  "getFrustumRadius self camera frustum =
     (let far0 = c0 (corners_far frustum);
          far2 = c2 (corners_far frustum);
          near2 = c2 (corners_near frustum);
          diagonal = max (distanceTo far0 far2) (distanceTo far0 near2);
          near = camera_near camera;
          far' = min (far self) (camera_far camera);
          t = vz far0 / (far' - near)
      in (if fade self then diagonal + 0.25 * t\<^sup>2 * (far' - near) else diagonal) / 2)"
  by (simp add: getFrustumRadius_def Let_def)

text \<open>
  The example frustum: the far diagonal is 10 and the whole diagonal 13; with
  \<open>fade\<close>, \<open>t\<close> is -12 / 2 and 18 is added to the diagonal.
\<close>

theorem getFrustumRadius_formula_witness:
  "getFrustumRadius exampleShadows exampleCamera exampleFrustum = 31 / 2
   \<and> getFrustumRadius (exampleShadows\<lparr>fade := False\<rparr>) exampleCamera exampleFrustum = 13 / 2"
  using getFrustumRadius_formula [of exampleShadows exampleCamera exampleFrustum]
    getFrustumRadius_formula [of "exampleShadows\<lparr>fade := False\<rparr>" exampleCamera exampleFrustum]
  by (simp add: exampleShadows_def exampleCamera_def exampleFrustum_def Let_def
      distanceTo_def distanceToSquared_def sqrt_values)

text \<open>
  C8: after \<open>update\<close>, the projection matrix of every cascade is the orthographic
  projection with left \<open>-radius\<close>, right \<open>radius\<close>, top \<open>radius\<close>, bottom
  \<open>-radius\<close>, near \<open>-margin\<close> and far \<open>2 * radius + margin\<close>, where \<open>radius\<close>
  is the fitted radius of the cascade's frustum.
\<close>

theorem update_projectionMatrix:
  assumes "update setFromCamera getSurfaceNormal camera sunDirection self = Inr self'"
    and "i < cascadeCount self'"
  shows "projectionMatrix (cascades self' ! i) =
           (let radius = getFrustumRadius self' camera (frusta self' ! i)
            in makeOrthographic (- radius) radius radius (- radius)
                 (- margin self') (2 * radius + margin self'))"
proof -
  from update_result [of setFromCamera getSurfaceNormal camera sunDirection self] assms
  have "projectionMatrix (cascades self' ! i) = cascadeProjection self' camera (frusta self' ! i)"
    by (auto simp: cascadeCount_def)
  then show ?thesis
    by (simp add: cascadeProjection_def Let_def mult.commute)
qed

text \<open>At the example the radius is 31/2 and the margin 1.\<close>

theorem update_projectionMatrix_witness:
  "\<not> isl (update (\<lambda>c f. exampleFrustum) (\<lambda>p. Vector3 0 0 1) exampleCamera exampleSun
            exampleShadows)
   \<and> 0 < cascadeCount (projr (update (\<lambda>c f. exampleFrustum) (\<lambda>p. Vector3 0 0 1)
                                exampleCamera exampleSun exampleShadows))
   \<and> projectionMatrix (cascades (projr (update (\<lambda>c f. exampleFrustum) (\<lambda>p. Vector3 0 0 1)
                                        exampleCamera exampleSun exampleShadows)) ! 0) =
       makeOrthographic (- (31 / 2)) (31 / 2) (31 / 2) (- (31 / 2)) (- 1) 32"
proof -
  obtain s' where s': "update (\<lambda>c f. exampleFrustum) (\<lambda>p. Vector3 0 0 1) exampleCamera
      exampleSun exampleShadows = Inr s'"
    and c: "cascadeCount s' = 1" and f: "frusta s' = [exampleFrustum]"
    and cfg: "far s' = 10000" "margin s' = 1" "fade s'"
    using example_update by blast
  have i: "0 < cascadeCount s'" using c by simp
  have "projectionMatrix (cascades s' ! 0) =
      makeOrthographic (- (31 / 2)) (31 / 2) (31 / 2) (- (31 / 2)) (- 1) 32"
    using update_projectionMatrix [OF s' i] f cfg
    by (simp add: example_getFrustumRadius Let_def)
  then show ?thesis using s' i by simp
qed

subsection \<open>The length check\<close>

text \<open>
  C9: in every \<open>update\<close>, after \<open>updateIntervals\<close> the list of frusta and the list
  of cascades have the same length, so the checks of \<open>updateProjectionMatrix\<close> and
  \<open>updateInverseViewMatrix\<close> pass and \<open>update\<close> returns; on lists of different
  lengths both methods fail with the invariant error and change no cascade.
\<close>

theorem invariant_never_fires:
  "length (frusta (updateIntervals setFromCamera camera self)) =
     length (cascades (updateIntervals setFromCamera camera self))
   \<and> (\<exists>self'. updateProjectionMatrix camera (updateIntervals setFromCamera camera self) = Inr self'
         \<and> (\<exists>self''. updateInverseViewMatrix getSurfaceNormal camera sunDirection self' = Inr self''))
   \<and> (\<exists>self'. update setFromCamera getSurfaceNormal camera sunDirection self = Inr self')
   \<and> (length (frusta self) \<noteq> length (cascades self) \<longrightarrow>
        updateProjectionMatrix camera self = Inl InvariantFailed
        \<and> updateInverseViewMatrix getSurfaceNormal camera sunDirection self = Inl InvariantFailed)"
proof -
  have len: "length (frusta (updateIntervals setFromCamera camera self)) =
     length (cascades (updateIntervals setFromCamera camera self))"
    by (simp add: updateIntervals_lengths)
  have mid: "\<exists>self'. updateProjectionMatrix camera (updateIntervals setFromCamera camera self) = Inr self'
         \<and> (\<exists>self''. updateInverseViewMatrix getSurfaceNormal camera sunDirection self' = Inr self'')"
    using len by (simp add: updateProjectionMatrix_def updateInverseViewMatrix_def Let_def)
  have up: "\<exists>self'. update setFromCamera getSurfaceNormal camera sunDirection self = Inr self'"
    using update_result [of setFromCamera getSurfaceNormal camera sunDirection self] by blast
  have bad: "length (frusta self) \<noteq> length (cascades self) \<longrightarrow>
        updateProjectionMatrix camera self = Inl InvariantFailed
        \<and> updateInverseViewMatrix getSurfaceNormal camera sunDirection self = Inl InvariantFailed"
    by (simp add: updateProjectionMatrix_def updateInverseViewMatrix_def Let_def)
  show ?thesis using len mid up bad by blast
qed

text \<open>
  The example object before its first \<open>update\<close> has one cascade and no frustum:
  both methods fail on it, and \<open>updateIntervals\<close> brings both lists to length 1.
\<close>

theorem invariant_never_fires_witness:
  "length (frusta exampleShadows) \<noteq> length (cascades exampleShadows)
   \<and> updateProjectionMatrix exampleCamera exampleShadows = Inl InvariantFailed
   \<and> updateInverseViewMatrix (\<lambda>p. Vector3 0 0 1) exampleCamera exampleSun exampleShadows
       = Inl InvariantFailed
   \<and> length (frusta (updateIntervals (\<lambda>c f. exampleFrustum) exampleCamera exampleShadows)) = 1
   \<and> length (cascades (updateIntervals (\<lambda>c f. exampleFrustum) exampleCamera exampleShadows)) = 1"
  using invariant_never_fires [of "\<lambda>c f. exampleFrustum" exampleCamera exampleShadows
      "\<lambda>p. Vector3 0 0 1" exampleSun]
  by (simp add: exampleShadows_def updateIntervals_lengths)

subsection \<open>The distance of the light\<close>

text \<open>
  C10: the blend factor of the light distance is the raw dot product of the sun
  direction and the surface normal at the camera position, not clamped: the distance
  is \<open>1e6 + (1e3 - 1e6) * dot\<close>, which is 1e6 at dot 0, 1e3 at dot 1, 1999000 at
  dot -1, and more than 1e6 for every negative dot.
\<close>

theorem lightDistance_unclamped:
  "lightDistance getSurfaceNormal camera sunDirection =
     1000000 + (1000 - 1000000) * dot sunDirection (getSurfaceNormal (getWorldPosition camera))
   \<and> (dot sunDirection (getSurfaceNormal (getWorldPosition camera)) = 0
        \<longrightarrow> lightDistance getSurfaceNormal camera sunDirection = 1000000)
   \<and> (dot sunDirection (getSurfaceNormal (getWorldPosition camera)) = 1
        \<longrightarrow> lightDistance getSurfaceNormal camera sunDirection = 1000)
   \<and> (dot sunDirection (getSurfaceNormal (getWorldPosition camera)) = - 1
        \<longrightarrow> lightDistance getSurfaceNormal camera sunDirection = 1999000)
   \<and> (dot sunDirection (getSurfaceNormal (getWorldPosition camera)) < 0
        \<longrightarrow> 1000000 < lightDistance getSurfaceNormal camera sunDirection)"
  by (simp add: lightDistance_def zenithAngle_def lerp_def Let_def)

text \<open>
  With the surface normal (0, 0, 1): the sun at the horizon, at the zenith, at the
  nadir, and 3/5 below the horizon.
\<close>

theorem lightDistance_unclamped_witness:
  "lightDistance (\<lambda>p. Vector3 0 0 1) exampleCamera (Vector3 1 0 0) = 1000000
   \<and> lightDistance (\<lambda>p. Vector3 0 0 1) exampleCamera (Vector3 0 0 1) = 1000
   \<and> lightDistance (\<lambda>p. Vector3 0 0 1) exampleCamera (Vector3 0 0 (- 1)) = 1999000
   \<and> 1000000 < lightDistance (\<lambda>p. Vector3 0 0 1) exampleCamera (Vector3 0 (4 / 5) (- 3 / 5))
   \<and> lightDistance (\<lambda>p. Vector3 0 0 1) exampleCamera (Vector3 0 (4 / 5) (- 3 / 5)) = 1599400"
  using lightDistance_unclamped [of "\<lambda>p. Vector3 0 0 1" exampleCamera "Vector3 1 0 0"]
    lightDistance_unclamped [of "\<lambda>p. Vector3 0 0 1" exampleCamera "Vector3 0 0 1"]
    lightDistance_unclamped [of "\<lambda>p. Vector3 0 0 1" exampleCamera "Vector3 0 0 (- 1)"]
    lightDistance_unclamped [of "\<lambda>p. Vector3 0 0 1" exampleCamera "Vector3 0 (4 / 5) (- 3 / 5)"]
  by (simp add: dot_def)

subsection \<open>The intervals of the cascades\<close>

text \<open>
  C2, as stated, fails at the first cascade: \<open>updateIntervals\<close> reads
  \<^verbatim>\<open>splits[i - 1] ?? 0\<close>, and for \<open>i = 0\<close> the index -1 is outside the array,
  so the first interval starts at 0 and not at the camera's near plane. With the
  example camera (near 1, far 3) and four cascades the intervals are
  [0, 3/2], [3/2, 2], [2, 5/2], [5/2, 3].
\<close>

theorem first_interval_counterexample:
  "\<not> isl (update (\<lambda>c f. exampleFrustum) (\<lambda>p. Vector3 0 0 1) exampleCamera exampleSun
            (set_cascadeCount 4 exampleShadows))
   \<and> map interval (cascades (projr (update (\<lambda>c f. exampleFrustum) (\<lambda>p. Vector3 0 0 1)
        exampleCamera exampleSun (set_cascadeCount 4 exampleShadows)))) =
       [Vector2 0 (3 / 2), Vector2 (3 / 2) 2, Vector2 2 (5 / 2), Vector2 (5 / 2) 3]
   \<and> camera_near exampleCamera = 1
   \<and> min (far (set_cascadeCount 4 exampleShadows)) (camera_far exampleCamera) = 3
   \<and> v2x (hd (map interval (cascades (projr (update (\<lambda>c f. exampleFrustum)
        (\<lambda>p. Vector3 0 0 1) exampleCamera exampleSun (set_cascadeCount 4 exampleShadows))))))
      \<noteq> camera_near exampleCamera"
proof -
  obtain s' where s': "update (\<lambda>c f. exampleFrustum) (\<lambda>p. Vector3 0 0 1) exampleCamera exampleSun
           (set_cascadeCount 4 exampleShadows) = Inr s'"
    and c: "cascadeCount s' = 4" and sp: "splits s' = [3 / 2, 2, 5 / 2, 3]"
    using example4_update by blast
  have iv: "interval (cascades s' ! i) =
           Vector2 (if i = 0 then 0 else splits s' ! (i - 1)) (splits s' ! i)" if "i < 4" for i
    using update_intervals(3) [OF s', of i] that c by simp
  have "map interval (cascades s') =
       [Vector2 0 (3 / 2), Vector2 (3 / 2) 2, Vector2 2 (5 / 2), Vector2 (5 / 2) 3]"
  proof (rule nth_equalityI)
    show "length (map interval (cascades s')) =
       length [Vector2 0 (3 / 2), Vector2 (3 / 2) 2, Vector2 2 (5 / 2), Vector2 (5 / 2) 3]"
      using c by (simp add: cascadeCount_def)
  next
    fix i assume "i < length (map interval (cascades s'))"
    then have i: "i < 4" using c by (simp add: cascadeCount_def)
    then have "i = 0 \<or> i = 1 \<or> i = 2 \<or> i = 3" by arith
    then show "map interval (cascades s') ! i =
       [Vector2 0 (3 / 2), Vector2 (3 / 2) 2, Vector2 2 (5 / 2), Vector2 (5 / 2) 3] ! i"
      using iv [OF i] i c sp by (auto simp: cascadeCount_def)
  qed
  then show ?thesis
    using s' by (simp add: exampleCamera_def example4_config)
qed

text \<open>
  C2, amended: after every \<open>update\<close> with at least one cascade, a camera with
  \<open>0 < near < min(far, camera.far)\<close>, and \<open>lambda\<close> in [0, 1] when the mode is
  practical, the intervals are ordered and do not overlap, consecutive intervals
  chain, and together they cover [0, min(far, camera.far)]: the first interval
  starts at 0, the last one ends at min(far, camera.far).
\<close>

theorem intervals_chain_from_zero:
  assumes "update setFromCamera getSurfaceNormal camera sunDirection self = Inr self'"
    and "0 < cascadeCount self'"
    and "0 < camera_near camera"
    and "camera_near camera < min (far self') (camera_far camera)"
    and "mode self' = Practical \<longrightarrow> 0 \<le> lambda self' \<and> lambda self' \<le> 1"
  shows "v2x (interval (cascades self' ! 0)) = 0
    \<and> v2y (interval (cascades self' ! (cascadeCount self' - 1))) =
        min (far self') (camera_far camera)
    \<and> (\<forall>i. Suc i < cascadeCount self' \<longrightarrow>
          v2y (interval (cascades self' ! i)) = v2x (interval (cascades self' ! Suc i)))
    \<and> (\<forall>i < cascadeCount self'.
          v2x (interval (cascades self' ! i)) < v2y (interval (cascades self' ! i)))"
proof -
  let ?n = "cascadeCount self'"
  let ?sp = "splits self'"
  note iv = update_intervals(3) [OF assms(1)]
  have len: "length ?sp = ?n" by (rule update_intervals(1) [OF assms(1)])
  have sp: "?sp = splitFrustum (mode self') ?n (camera_near camera)
                    (min (far self') (camera_far camera)) (lambda self')"
    by (rule update_intervals(2) [OF assms(1)])
  have sorted: "sorted_wrt (<) ?sp"
    using splitFrustum_sorted [OF assms(3,4,5), of ?n] sp by simp
  have range: "camera_near camera < d" if "d \<in> set ?sp" for d
    using splitFrustum_range [OF assms(3,4,5), of d ?n] that sp by simp
  have last: "last ?sp = min (far self') (camera_far camera)"
    using splitFrustum_last [OF assms(2,3,4), of "mode self'" "lambda self'"] sp by simp
  have first: "v2x (interval (cascades self' ! 0)) = 0"
    using iv [of 0] assms(2) by simp
  have end': "v2y (interval (cascades self' ! (?n - 1))) = min (far self') (camera_far camera)"
    using iv [of "?n - 1"] assms(2) last len by (simp add: last_conv_nth flip: length_0_conv)
  have chain: "\<forall>i. Suc i < ?n \<longrightarrow>
          v2y (interval (cascades self' ! i)) = v2x (interval (cascades self' ! Suc i))"
    using iv by simp
  have ordered: "\<forall>i < ?n. v2x (interval (cascades self' ! i)) < v2y (interval (cascades self' ! i))"
  proof (intro allI impI)
    fix i assume i: "i < ?n"
    show "v2x (interval (cascades self' ! i)) < v2y (interval (cascades self' ! i))"
    proof (cases i)
      case 0
      have "?sp ! 0 \<in> set ?sp" using i len by (simp add: 0)
      then have "0 < ?sp ! 0" using range assms(3) by fastforce
      then show ?thesis using iv [OF i] 0 by simp
    next
      case (Suc j)
      have "?sp ! j < ?sp ! Suc j"
        using sorted i len Suc by (simp add: sorted_wrt_iff_nth_less)
      then show ?thesis using iv [OF i] Suc by simp
    qed
  qed
  show ?thesis using first end' chain ordered by blast
qed

text \<open>The example camera and four cascades.\<close>

theorem intervals_chain_from_zero_witness:
  "\<not> isl (update (\<lambda>c f. exampleFrustum) (\<lambda>p. Vector3 0 0 1) exampleCamera exampleSun
            (set_cascadeCount 4 exampleShadows))
   \<and> v2x (interval (cascades (projr (update (\<lambda>c f. exampleFrustum) (\<lambda>p. Vector3 0 0 1)
        exampleCamera exampleSun (set_cascadeCount 4 exampleShadows))) ! 0)) = 0
   \<and> v2y (interval (cascades (projr (update (\<lambda>c f. exampleFrustum) (\<lambda>p. Vector3 0 0 1)
        exampleCamera exampleSun (set_cascadeCount 4 exampleShadows))) ! 3)) = 3
   \<and> v2y (interval (cascades (projr (update (\<lambda>c f. exampleFrustum) (\<lambda>p. Vector3 0 0 1)
        exampleCamera exampleSun (set_cascadeCount 4 exampleShadows))) ! 1))
      = v2x (interval (cascades (projr (update (\<lambda>c f. exampleFrustum) (\<lambda>p. Vector3 0 0 1)
        exampleCamera exampleSun (set_cascadeCount 4 exampleShadows))) ! 2))
   \<and> v2x (interval (cascades (projr (update (\<lambda>c f. exampleFrustum) (\<lambda>p. Vector3 0 0 1)
        exampleCamera exampleSun (set_cascadeCount 4 exampleShadows))) ! 2))
      < v2y (interval (cascades (projr (update (\<lambda>c f. exampleFrustum) (\<lambda>p. Vector3 0 0 1)
        exampleCamera exampleSun (set_cascadeCount 4 exampleShadows))) ! 2))"
proof -
  obtain s' where s': "update (\<lambda>c f. exampleFrustum) (\<lambda>p. Vector3 0 0 1) exampleCamera exampleSun
           (set_cascadeCount 4 exampleShadows) = Inr s'"
    and c: "cascadeCount s' = 4" and cfg: "mode s' = Uniform" "far s' = 10000"
    using example4_update by blast
  have h: "0 < cascadeCount s'" "0 < camera_near exampleCamera"
    "camera_near exampleCamera < min (far s') (camera_far exampleCamera)"
    "mode s' = Practical \<longrightarrow> 0 \<le> lambda s' \<and> lambda s' \<le> 1"
    using c cfg by (simp_all add: exampleCamera_def)
  note t = intervals_chain_from_zero [OF s' h]
  have first: "v2x (interval (cascades s' ! 0)) = 0"
    using t by blast
  have end': "v2y (interval (cascades s' ! 3)) = 3"
    using t c cfg by (simp add: exampleCamera_def)
  have "\<forall>i. Suc i < cascadeCount s' \<longrightarrow>
          v2y (interval (cascades s' ! i)) = v2x (interval (cascades s' ! Suc i))"
    using t by blast
  from this [rule_format, of 1]
  have chain: "v2y (interval (cascades s' ! 1)) = v2x (interval (cascades s' ! 2))"
    using c by (simp add: numeral_2_eq_2)
  have "\<forall>i < cascadeCount s'.
          v2x (interval (cascades s' ! i)) < v2y (interval (cascades s' ! i))"
    using t by blast
  from this [rule_format, of 2]
  have ordered: "v2x (interval (cascades s' ! 2)) < v2y (interval (cascades s' ! 2))"
    using c by simp
  show ?thesis
    using s' first end' chain ordered by simp
qed

subsection \<open>The view matrix of the light\<close>

text \<open>
  C3, as stated, fails at the look-at: the source calls
  \<^verbatim>\<open>lookAt(center, position, up)\<close>, whose first parameter is three.js's \<open>eye\<close>
  and whose second is its \<open>target\<close>, so the eye is the target point and the
  look-at target is the light position. At the example the target is (0, 1, 1) and
  the position (0, 1, 1001); the matrix of the source has the rotation
  diag(-1, 1, -1), the look-at with eye = position and target = target has the
  identity rotation, and the two view matrices differ as well.
\<close>

theorem lookAt_eye_counterexample:
  "\<not> isl (update (\<lambda>c f. exampleFrustum) (\<lambda>p. Vector3 0 0 1) exampleCamera exampleSun
            exampleShadows)
   \<and> lightTarget 1 31 exampleCamera exampleSun exampleFrustum
        (projectionMatrix (cascades (projr (update (\<lambda>c f. exampleFrustum) (\<lambda>p. Vector3 0 0 1)
           exampleCamera exampleSun exampleShadows)) ! 0)) = Vector3 0 1 1
   \<and> lightPosition exampleSun (lightDistance (\<lambda>p. Vector3 0 0 1) exampleCamera exampleSun)
        (Vector3 0 1 1) = Vector3 0 1 1001
   \<and> inverseViewMatrix (cascades (projr (update (\<lambda>c f. exampleFrustum) (\<lambda>p. Vector3 0 0 1)
        exampleCamera exampleSun exampleShadows)) ! 0) =
       Matrix4 (- 1) 0 0 0  0 1 0 0  0 0 (- 1) 0  0 1 1001 1
   \<and> setPosition (lookAt Matrix4_new (Vector3 0 1 1001) (Vector3 0 1 1) DEFAULT_UP)
        (Vector3 0 1 1001) = Matrix4 1 0 0 0  0 1 0 0  0 0 1 0  0 1 1001 1
   \<and> viewMatrix (cascades (projr (update (\<lambda>c f. exampleFrustum) (\<lambda>p. Vector3 0 0 1)
        exampleCamera exampleSun exampleShadows)) ! 0) =
       Matrix4 (- 1) 0 0 0  0 1 0 0  0 0 (- 1) 0  0 (- 1) 1001 1
   \<and> invert (setPosition (lookAt Matrix4_new (Vector3 0 1 1001) (Vector3 0 1 1) DEFAULT_UP)
        (Vector3 0 1 1001)) = Matrix4 1 0 0 0  0 1 0 0  0 0 1 0  0 (- 1) (- 1001) 1
   \<and> inverseViewMatrix (cascades (projr (update (\<lambda>c f. exampleFrustum) (\<lambda>p. Vector3 0 0 1)
        exampleCamera exampleSun exampleShadows)) ! 0) \<noteq>
       setPosition (lookAt Matrix4_new (Vector3 0 1 1001) (Vector3 0 1 1) DEFAULT_UP)
         (Vector3 0 1 1001)
   \<and> viewMatrix (cascades (projr (update (\<lambda>c f. exampleFrustum) (\<lambda>p. Vector3 0 0 1)
        exampleCamera exampleSun exampleShadows)) ! 0) \<noteq>
       invert (setPosition (lookAt Matrix4_new (Vector3 0 1 1001) (Vector3 0 1 1) DEFAULT_UP)
         (Vector3 0 1 1001))"
proof -
  obtain s' where s': "update (\<lambda>c f. exampleFrustum) (\<lambda>p. Vector3 0 0 1) exampleCamera
      exampleSun exampleShadows = Inr s'"
    and p: "projectionMatrix (cascades s' ! 0) =
         Matrix4 (2 / 31) 0 0 0  0 (2 / 31) 0 0  0 0 (- (2 / 33)) 0  0 0 (- (31 / 33)) 1"
    and v: "inverseViewMatrix (cascades s' ! 0) =
         Matrix4 (- 1) 0 0 0  0 1 0 0  0 0 (- 1) 0  0 1 1001 1"
    and w: "viewMatrix (cascades s' ! 0) =
         invert (Matrix4 (- 1) 0 0 0  0 1 0 0  0 0 (- 1) 0  0 1 1001 1)"
    using example_update by blast
  have claimed: "setPosition (lookAt Matrix4_new (Vector3 0 1 1001) (Vector3 0 1 1) DEFAULT_UP)
        (Vector3 0 1 1001) = Matrix4 1 0 0 0  0 1 0 0  0 0 1 0  0 1 1001 1"
    unfolding example_lookAt_swapped by (simp add: setPosition_def Matrix4_new_def)
  show ?thesis
    unfolding claimed
    using s' p v w
    by (simp add: example_lightTarget example_lightDistance example_lightPosition invert_values)
qed

text \<open>
  C3, amended: for every cascade after \<open>update\<close>, the light-space target has its z
  set to the maximal z of the light-space bounding box plus the margin; the light
  distance is \<open>lerp(1e6, 1e3, zenithFactor)\<close> with \<open>zenithFactor\<close> the dot product
  of the sun direction and the surface normal at the camera's world position; the
  light position is target + sunDirection * distance; the cascade's
  \<open>inverseViewMatrix\<close> is three.js's \<open>lookAt\<close> with eye = target and
  target = position, written into the matrix the cascade had before, with its
  translation set to the light position; whenever the cross product of the up
  vector (0, 1, 0) and the vector from the position to the target is not zero
  (the vector is neither zero nor parallel to up), the third column of
  \<open>inverseViewMatrix\<close> is that vector normalized; and the view matrix is the
  inverse of \<open>inverseViewMatrix\<close>.
\<close>

theorem update_lightViewMatrix:
  assumes "update setFromCamera getSurfaceNormal camera sunDirection self = Inr self'"
    and "i < cascadeCount self'"
  shows "(let bbox = lightSpaceBox (cameraToLightMatrix camera sunDirection) (frusta self' ! i);
              center = lightSpaceCenter (margin self') bbox;
              target = applyMatrix4
                         (snapCenter (cascadeSize self') (projectionMatrix (cascades self' ! i))
                            center)
                         (lightOrientationMatrix sunDirection);
              zenithFactor = dot sunDirection (getSurfaceNormal (getWorldPosition camera));
              distance = lerp 1000000 1000 zenithFactor;
              position = addVectors (multiplyScalar sunDirection distance) target
          in vz center = vz (box_max bbox) + margin self'
           \<and> inverseViewMatrix (cascades self' ! i) =
               setPosition (lookAt (inverseViewMatrix (cascades self ! i)) target position
                              DEFAULT_UP) position
           \<and> Vector3 (te12 (inverseViewMatrix (cascades self' ! i)))
                      (te13 (inverseViewMatrix (cascades self' ! i)))
                      (te14 (inverseViewMatrix (cascades self' ! i))) = position
           \<and> (crossVectors DEFAULT_UP (subVectors target position) \<noteq> Vector3 0 0 0 \<longrightarrow>
                Vector3 (te8 (inverseViewMatrix (cascades self' ! i)))
                        (te9 (inverseViewMatrix (cascades self' ! i)))
                        (te10 (inverseViewMatrix (cascades self' ! i))) =
                  normalize3 (subVectors target position))
           \<and> viewMatrix (cascades self' ! i) = invert (inverseViewMatrix (cascades self' ! i)))"
proof -
  from update_result [of setFromCamera getSurfaceNormal camera sunDirection self] assms
  have v: "inverseViewMatrix (cascades self' ! i) =
            (let center = lightTarget (margin self') (cascadeSize self') camera sunDirection
                            (frusta self' ! i) (projectionMatrix (cascades self' ! i));
                 position = lightPosition sunDirection
                              (lightDistance getSurfaceNormal camera sunDirection) center
             in setPosition (lookAt (inverseViewMatrix (cascades self ! i)) center position
                               DEFAULT_UP) position)"
    and w: "viewMatrix (cascades self' ! i) = invert (inverseViewMatrix (cascades self' ! i))"
    by (auto simp: cascadeCount_def)
  have z: "vz (lightSpaceCenter m b) = vz (box_max b) + m" for m b
    by (simp add: lightSpaceCenter_def Let_def)
  have col: "crossVectors up (subVectors e t) \<noteq> Vector3 0 0 0 \<longrightarrow>
      Vector3 (te8 (setPosition (lookAt m e t up) p)) (te9 (setPosition (lookAt m e t up) p))
        (te10 (setPosition (lookAt m e t up) p)) = normalize3 (subVectors e t)" for up e t m p
    using lookAt_third_column [of up e t m] by (simp add: setPosition_def)
  have v': "inverseViewMatrix (cascades self' ! i) =
      setPosition (lookAt (inverseViewMatrix (cascades self ! i))
        (applyMatrix4
           (snapCenter (cascadeSize self') (projectionMatrix (cascades self' ! i))
              (lightSpaceCenter (margin self')
                 (lightSpaceBox (cameraToLightMatrix camera sunDirection) (frusta self' ! i))))
           (lightOrientationMatrix sunDirection))
        (addVectors (multiplyScalar sunDirection
            (lerp 1000000 1000 (dot sunDirection (getSurfaceNormal (getWorldPosition camera)))))
          (applyMatrix4
           (snapCenter (cascadeSize self') (projectionMatrix (cascades self' ! i))
              (lightSpaceCenter (margin self')
                 (lightSpaceBox (cameraToLightMatrix camera sunDirection) (frusta self' ! i))))
           (lightOrientationMatrix sunDirection)))
        DEFAULT_UP)
       (addVectors (multiplyScalar sunDirection
            (lerp 1000000 1000 (dot sunDirection (getSurfaceNormal (getWorldPosition camera)))))
          (applyMatrix4
           (snapCenter (cascadeSize self') (projectionMatrix (cascades self' ! i))
              (lightSpaceCenter (margin self')
                 (lightSpaceBox (cameraToLightMatrix camera sunDirection) (frusta self' ! i))))
           (lightOrientationMatrix sunDirection)))"
    by (simp add: v lightTarget_def lightPosition_def lightDistance_def zenithAngle_def Let_def)
  show ?thesis
    unfolding Let_def
    apply (intro conjI)
        apply (rule z)
       apply (rule v')
      apply (simp add: v' setPosition_def)
     apply (subst v', subst v', subst v', rule col)
    apply (rule w)
    done
qed

text \<open>
  The example: target (0, 1, 1), position (0, 1, 1001); the direction from the
  position to the target is (0, 0, -1000), not parallel to the up vector, and the
  third column is (0, 0, -1).
\<close>

theorem update_lightViewMatrix_witness:
  "\<not> isl (update (\<lambda>c f. exampleFrustum) (\<lambda>p. Vector3 0 0 1) exampleCamera exampleSun
            exampleShadows)
   \<and> 0 < cascadeCount (projr (update (\<lambda>c f. exampleFrustum) (\<lambda>p. Vector3 0 0 1)
           exampleCamera exampleSun exampleShadows))
   \<and> inverseViewMatrix (cascades (projr (update (\<lambda>c f. exampleFrustum) (\<lambda>p. Vector3 0 0 1)
        exampleCamera exampleSun exampleShadows)) ! 0) =
       setPosition (lookAt Matrix4_new (Vector3 0 1 1) (Vector3 0 1 1001) DEFAULT_UP)
         (Vector3 0 1 1001)
   \<and> crossVectors DEFAULT_UP (subVectors (Vector3 0 1 1) (Vector3 0 1 1001)) =
       Vector3 (- 1000) 0 0
   \<and> Vector3
        (te8 (inverseViewMatrix (cascades (projr (update (\<lambda>c f. exampleFrustum)
           (\<lambda>p. Vector3 0 0 1) exampleCamera exampleSun exampleShadows)) ! 0)))
        (te9 (inverseViewMatrix (cascades (projr (update (\<lambda>c f. exampleFrustum)
           (\<lambda>p. Vector3 0 0 1) exampleCamera exampleSun exampleShadows)) ! 0)))
        (te10 (inverseViewMatrix (cascades (projr (update (\<lambda>c f. exampleFrustum)
           (\<lambda>p. Vector3 0 0 1) exampleCamera exampleSun exampleShadows)) ! 0))) =
       normalize3 (subVectors (Vector3 0 1 1) (Vector3 0 1 1001))
   \<and> normalize3 (subVectors (Vector3 0 1 1) (Vector3 0 1 1001)) = Vector3 0 0 (- 1)
   \<and> viewMatrix (cascades (projr (update (\<lambda>c f. exampleFrustum) (\<lambda>p. Vector3 0 0 1)
        exampleCamera exampleSun exampleShadows)) ! 0) =
       Matrix4 (- 1) 0 0 0  0 1 0 0  0 0 (- 1) 0  0 (- 1) 1001 1"
proof -
  obtain s' where s': "update (\<lambda>c f. exampleFrustum) (\<lambda>p. Vector3 0 0 1) exampleCamera
      exampleSun exampleShadows = Inr s'"
    and c: "cascadeCount s' = 1" and f: "frusta s' = [exampleFrustum]"
    and cfg: "cascadeSize s' = 31" "margin s' = 1"
    and p: "projectionMatrix (cascades s' ! 0) =
         Matrix4 (2 / 31) 0 0 0  0 (2 / 31) 0 0  0 0 (- (2 / 33)) 0  0 0 (- (31 / 33)) 1"
    and v: "inverseViewMatrix (cascades s' ! 0) =
         Matrix4 (- 1) 0 0 0  0 1 0 0  0 0 (- 1) 0  0 1 1001 1"
    using example_update by blast
  have i: "0 < cascadeCount s'" using c by simp
  have old: "inverseViewMatrix (cascades exampleShadows ! 0) = Matrix4_new"
    by (simp add: exampleShadows_def newCascade_def)
  have d: "lerp 1000000 1000 (dot exampleSun (Vector3 0 0 1)) = 1000"
    by (simp add: lerp_def dot_def exampleSun_def)
  have pos: "addVectors (multiplyScalar exampleSun 1000) (Vector3 0 1 1) = Vector3 0 1 1001"
    by (simp add: addVectors_def multiplyScalar_def exampleSun_def)
  have t: "applyMatrix4 (Vector3 0 1 1) Matrix4_new = Vector3 0 1 1"
    by (simp add: applyMatrix4_def Matrix4_new_def)
  have x: "crossVectors DEFAULT_UP (subVectors (Vector3 0 1 1) (Vector3 0 1 1001)) =
       Vector3 (- 1000) 0 0"
    by (simp add: crossVectors_def subVectors_def DEFAULT_UP_def)
  have n: "normalize3 (subVectors (Vector3 0 1 1) (Vector3 0 1 1001)) = Vector3 0 0 (- 1)"
    by (simp add: normalize3_def subVectors_def vlength_def lengthSq_def divideScalar_def
        multiplyScalar_def sqrt_values)
  have "inverseViewMatrix (cascades s' ! 0) =
       setPosition (lookAt Matrix4_new (Vector3 0 1 1) (Vector3 0 1 1001) DEFAULT_UP)
         (Vector3 0 1 1001)
      \<and> (crossVectors DEFAULT_UP (subVectors (Vector3 0 1 1) (Vector3 0 1 1001)) \<noteq>
           Vector3 0 0 0 \<longrightarrow>
         Vector3 (te8 (inverseViewMatrix (cascades s' ! 0)))
           (te9 (inverseViewMatrix (cascades s' ! 0)))
           (te10 (inverseViewMatrix (cascades s' ! 0))) =
         normalize3 (subVectors (Vector3 0 1 1) (Vector3 0 1 1001)))
      \<and> viewMatrix (cascades s' ! 0) = invert (inverseViewMatrix (cascades s' ! 0))"
    using update_lightViewMatrix [OF s' i]
    unfolding Let_def f cfg p old nth_Cons_0 example_cameraToLightMatrix example_lightSpaceBox
      example_lightSpaceCenter example_snapCenter example_lightOrientationMatrix t d pos
    by blast
  moreover have "crossVectors DEFAULT_UP (subVectors (Vector3 0 1 1) (Vector3 0 1 1001)) \<noteq>
      Vector3 0 0 0"
    unfolding x by simp
  ultimately have "inverseViewMatrix (cascades s' ! 0) =
       setPosition (lookAt Matrix4_new (Vector3 0 1 1) (Vector3 0 1 1001) DEFAULT_UP)
         (Vector3 0 1 1001)
      \<and> Vector3 (te8 (inverseViewMatrix (cascades s' ! 0)))
           (te9 (inverseViewMatrix (cascades s' ! 0)))
           (te10 (inverseViewMatrix (cascades s' ! 0))) =
         normalize3 (subVectors (Vector3 0 1 1) (Vector3 0 1 1001))
      \<and> viewMatrix (cascades s' ! 0) = invert (inverseViewMatrix (cascades s' ! 0))"
    by blast
  then have a: "inverseViewMatrix (cascades s' ! 0) =
       setPosition (lookAt Matrix4_new (Vector3 0 1 1) (Vector3 0 1 1001) DEFAULT_UP)
         (Vector3 0 1 1001)"
    and b: "Vector3 (te8 (inverseViewMatrix (cascades s' ! 0)))
           (te9 (inverseViewMatrix (cascades s' ! 0)))
           (te10 (inverseViewMatrix (cascades s' ! 0))) =
         normalize3 (subVectors (Vector3 0 1 1) (Vector3 0 1 1001))"
    and w: "viewMatrix (cascades s' ! 0) = invert (inverseViewMatrix (cascades s' ! 0))"
    by blast+
  have w': "viewMatrix (cascades s' ! 0) =
      Matrix4 (- 1) 0 0 0  0 1 0 0  0 0 (- 1) 0  0 (- 1) 1001 1"
    unfolding w v by (simp add: invert_values)
  show ?thesis
    unfolding s' sum.sel
    using i a b x n w' by (intro conjI) simp_all
qed

subsection \<open>Texel snapping\<close>

text \<open>
  C7: for every cascade after \<open>update\<close>, the texel width and height are
  \<open>(right - left) / cascadeSize\<close> and \<open>(top - bottom) / cascadeSize\<close> of the
  bounds extracted from the cascade's own projection matrix, and the x and y of the
  light-space center are replaced by \<open>round(x / texelWidth) * texelWidth\<close> and
  \<open>round(y / texelHeight) * texelHeight\<close>, integer multiples of the texel size,
  while z is kept; when the radius and the cascade size are not 0, the bounds are
  \<open>-radius, radius, radius, -radius\<close> of that cascade and the snapped x and y
  are at most half a texel away from the raw ones; with texel size 1 the raw target
  (3.4, 7.6, z) snaps to (3, 8, z).
\<close>

theorem texel_snapping:
  assumes "update setFromCamera getSurfaceNormal camera sunDirection self = Inr self'"
    and "i < cascadeCount self'"
  shows "(let projection = projectionMatrix (cascades self' ! i);
              radius = getFrustumRadius self' camera (frusta self' ! i);
              (left, right, top', bottom) = extractOrthographicTuple projection;
              texelWidth = (right - left) / cascadeSize self';
              texelHeight = (top' - bottom) / cascadeSize self';
              raw = lightSpaceCenter (margin self')
                      (lightSpaceBox (cameraToLightMatrix camera sunDirection) (frusta self' ! i));
              snapped = Vector3 (Math_round (vx raw / texelWidth) * texelWidth)
                                (Math_round (vy raw / texelHeight) * texelHeight)
                                (vz raw);
              target = applyMatrix4 snapped (lightOrientationMatrix sunDirection);
              position = lightPosition sunDirection
                           (lightDistance getSurfaceNormal camera sunDirection) target
          in inverseViewMatrix (cascades self' ! i) =
               setPosition (lookAt (inverseViewMatrix (cascades self ! i)) target position
                              DEFAULT_UP) position
           \<and> vz snapped = vz raw
           \<and> (\<exists>k::int. vx snapped = of_int k * texelWidth)
           \<and> (\<exists>k::int. vy snapped = of_int k * texelHeight)
           \<and> (radius \<noteq> 0 \<and> cascadeSize self' \<noteq> 0 \<longrightarrow>
                (left, right, top', bottom) = (- radius, radius, radius, - radius)
                \<and> texelWidth = 2 * radius / cascadeSize self'
                \<and> texelHeight = 2 * radius / cascadeSize self'
                \<and> \<bar>vx snapped - vx raw\<bar> \<le> \<bar>texelWidth\<bar> / 2
                \<and> \<bar>vy snapped - vy raw\<bar> \<le> \<bar>texelHeight\<bar> / 2))
    \<and> texelSize 4 (makeOrthographic (- 2) 2 2 (- 2) 0 4) = (1, 1)
    \<and> snapCenter 4 (makeOrthographic (- 2) 2 2 (- 2) 0 4) (Vector3 (34 / 10) (76 / 10) z) =
        Vector3 3 8 z"
proof -
  let ?r = "getFrustumRadius self' camera (frusta self' ! i)"
  let ?P = "projectionMatrix (cascades self' ! i)"
  let ?raw = "lightSpaceCenter (margin self')
                (lightSpaceBox (cameraToLightMatrix camera sunDirection) (frusta self' ! i))"
  obtain l r t b where ext: "extractOrthographicTuple ?P = (l, r, t, b)"
    by (cases "extractOrthographicTuple ?P") auto
  let ?w = "(r - l) / cascadeSize self'"
  let ?h = "(t - b) / cascadeSize self'"
  let ?snapped = "Vector3 (Math_round (vx ?raw / ?w) * ?w) (Math_round (vy ?raw / ?h) * ?h)
                    (vz ?raw)"
  from update_result [of setFromCamera getSurfaceNormal camera sunDirection self] assms(1,2)
  have P: "?P = cascadeProjection self' camera (frusta self' ! i)"
    and v: "inverseViewMatrix (cascades self' ! i) =
            (let center = lightTarget (margin self') (cascadeSize self') camera sunDirection
                            (frusta self' ! i) ?P;
                 position = lightPosition sunDirection
                              (lightDistance getSurfaceNormal camera sunDirection) center
             in setPosition (lookAt (inverseViewMatrix (cascades self ! i)) center position
                               DEFAULT_UP) position)"
    by (auto simp: cascadeCount_def)
  have tgt: "lightTarget (margin self') (cascadeSize self') camera sunDirection
               (frusta self' ! i) ?P =
             applyMatrix4 ?snapped (lightOrientationMatrix sunDirection)"
    by (simp add: lightTarget_def snapCenter_def texelSize_def ext Let_def)
  have main: "inverseViewMatrix (cascades self' ! i) =
      (let target = applyMatrix4 ?snapped (lightOrientationMatrix sunDirection);
           position = lightPosition sunDirection
                           (lightDistance getSurfaceNormal camera sunDirection) target
       in setPosition (lookAt (inverseViewMatrix (cascades self ! i)) target position
                              DEFAULT_UP) position)"
    using v unfolding tgt .
  have z: "vz ?snapped = vz ?raw" by simp
  have mult: "\<exists>k::int. vx ?snapped = of_int k * ?w" "\<exists>k::int. vy ?snapped = of_int k * ?h"
    using snap_multiple [of "vx ?raw" ?w] snap_multiple [of "vy ?raw" ?h] by simp_all
  have fitted: "(l, r, t, b) = (- ?r, ?r, ?r, - ?r)
                \<and> ?w = 2 * ?r / cascadeSize self'
                \<and> ?h = 2 * ?r / cascadeSize self'
                \<and> \<bar>vx ?snapped - vx ?raw\<bar> \<le> \<bar>?w\<bar> / 2
                \<and> \<bar>vy ?snapped - vy ?raw\<bar> \<le> \<bar>?h\<bar> / 2"
    if nz: "?r \<noteq> 0 \<and> cascadeSize self' \<noteq> 0"
  proof -
    have r2: "?r \<noteq> - ?r" using nz by simp
    have "extractOrthographicTuple ?P = (- ?r, ?r, ?r, - ?r)"
      unfolding P cascadeProjection_def Let_def
      by (rule extractOrthographicTuple_makeOrthographic) (use r2 in simp_all)
    then have b: "l = - ?r" "r = ?r" "t = ?r" "b = - ?r" using ext by simp_all
    have w0: "?w \<noteq> 0" "?h \<noteq> 0" using nz b by simp_all
    show ?thesis
      using snap_nearest [OF w0(1), of "vx ?raw"] snap_nearest [OF w0(2), of "vy ?raw"] b
      by simp
  qed
  have ex1: "texelSize 4 (makeOrthographic (- 2) 2 2 (- 2) 0 4) = (1, 1)"
    by (simp add: texelSize_def extractOrthographicTuple_def makeOrthographic_def Let_def)
  have ex2: "snapCenter 4 (makeOrthographic (- 2) 2 2 (- 2) 0 4) (Vector3 (34 / 10) (76 / 10) z) =
        Vector3 3 8 z"
    unfolding snapCenter_def ex1 by (simp add: Math_round_def)
  have first: "(let projection = ?P;
              radius = ?r;
              (left, right, top', bottom) = extractOrthographicTuple projection;
              texelWidth = (right - left) / cascadeSize self';
              texelHeight = (top' - bottom) / cascadeSize self';
              raw = ?raw;
              snapped = Vector3 (Math_round (vx raw / texelWidth) * texelWidth)
                                (Math_round (vy raw / texelHeight) * texelHeight)
                                (vz raw);
              target = applyMatrix4 snapped (lightOrientationMatrix sunDirection);
              position = lightPosition sunDirection
                           (lightDistance getSurfaceNormal camera sunDirection) target
          in inverseViewMatrix (cascades self' ! i) =
               setPosition (lookAt (inverseViewMatrix (cascades self ! i)) target position
                              DEFAULT_UP) position
           \<and> vz snapped = vz raw
           \<and> (\<exists>k::int. vx snapped = of_int k * texelWidth)
           \<and> (\<exists>k::int. vy snapped = of_int k * texelHeight)
           \<and> (radius \<noteq> 0 \<and> cascadeSize self' \<noteq> 0 \<longrightarrow>
                (left, right, top', bottom) = (- radius, radius, radius, - radius)
                \<and> texelWidth = 2 * radius / cascadeSize self'
                \<and> texelHeight = 2 * radius / cascadeSize self'
                \<and> \<bar>vx snapped - vx raw\<bar> \<le> \<bar>texelWidth\<bar> / 2
                \<and> \<bar>vy snapped - vy raw\<bar> \<le> \<bar>texelHeight\<bar> / 2))"
    unfolding Let_def ext prod.case
    using main [unfolded Let_def] z mult fitted by blast
  show ?thesis using first ex1 ex2 by blast
qed

text \<open>The example: texel size 1, raw center (2/5, 3/5, 1), snapped to (0, 1, 1).\<close>

theorem texel_snapping_witness:
  "\<not> isl (update (\<lambda>c f. exampleFrustum) (\<lambda>p. Vector3 0 0 1) exampleCamera exampleSun
            exampleShadows)
   \<and> getFrustumRadius (projr (update (\<lambda>c f. exampleFrustum) (\<lambda>p. Vector3 0 0 1)
        exampleCamera exampleSun exampleShadows)) exampleCamera exampleFrustum = 31 / 2
   \<and> extractOrthographicTuple (projectionMatrix (cascades (projr (update (\<lambda>c f. exampleFrustum)
        (\<lambda>p. Vector3 0 0 1) exampleCamera exampleSun exampleShadows)) ! 0)) =
       (- (31 / 2), 31 / 2, 31 / 2, - (31 / 2))
   \<and> lightSpaceCenter 1 (lightSpaceBox (cameraToLightMatrix exampleCamera exampleSun)
        exampleFrustum) = Vector3 (2 / 5) (3 / 5) 1
   \<and> inverseViewMatrix (cascades (projr (update (\<lambda>c f. exampleFrustum) (\<lambda>p. Vector3 0 0 1)
        exampleCamera exampleSun exampleShadows)) ! 0) =
       setPosition (lookAt Matrix4_new (Vector3 0 1 1) (Vector3 0 1 1001) DEFAULT_UP)
         (Vector3 0 1 1001)"
proof -
  obtain s' where s': "update (\<lambda>c f. exampleFrustum) (\<lambda>p. Vector3 0 0 1) exampleCamera
      exampleSun exampleShadows = Inr s'"
    and c: "cascadeCount s' = 1" and f: "frusta s' = [exampleFrustum]"
    and cfg: "cascadeSize s' = 31" "margin s' = 1" "far s' = 10000" "fade s'"
    and p: "projectionMatrix (cascades s' ! 0) =
         Matrix4 (2 / 31) 0 0 0  0 (2 / 31) 0 0  0 0 (- (2 / 33)) 0  0 0 (- (31 / 33)) 1"
    using example_update by blast
  have r: "getFrustumRadius s' exampleCamera exampleFrustum = 31 / 2"
    using cfg by (simp add: example_getFrustumRadius)
  have h: "0 < cascadeCount s'"
    using c by simp
  have old: "inverseViewMatrix (cascades exampleShadows ! 0) = Matrix4_new"
    by (simp add: exampleShadows_def newCascade_def)
  have raw: "lightSpaceCenter 1 (lightSpaceBox (cameraToLightMatrix exampleCamera exampleSun)
        exampleFrustum) = Vector3 (2 / 5) (3 / 5) 1"
    by (simp add: example_cameraToLightMatrix example_lightSpaceBox example_lightSpaceCenter)
  have ext: "extractOrthographicTuple
      (Matrix4 (2 / 31) 0 0 0  0 (2 / 31) 0 0  0 0 (- (2 / 33)) 0  0 0 (- (31 / 33)) 1) =
      (- (31 / 2), 31 / 2, 31 / 2, - (31 / 2))"
    by (simp add: extractOrthographicTuple_def Let_def)
  have sn: "Vector3 (Math_round (vx (Vector3 (2 / 5) (3 / 5) 1) / ((31 / 2 - - (31 / 2)) / 31))
                       * ((31 / 2 - - (31 / 2)) / 31))
                    (Math_round (vy (Vector3 (2 / 5) (3 / 5) 1) / ((31 / 2 - - (31 / 2)) / 31))
                       * ((31 / 2 - - (31 / 2)) / 31))
                    (vz (Vector3 (2 / 5) (3 / 5) 1)) = Vector3 0 1 1"
    by (simp add: Math_round_def)
  have t: "applyMatrix4 (Vector3 0 1 1) Matrix4_new = Vector3 0 1 1"
    by (simp add: applyMatrix4_def Matrix4_new_def)
  have "inverseViewMatrix (cascades s' ! 0) =
       setPosition (lookAt Matrix4_new (Vector3 0 1 1) (Vector3 0 1 1001) DEFAULT_UP)
         (Vector3 0 1 1001)"
    using texel_snapping [OF s' h]
    unfolding f nth_Cons_0 r cfg p ext prod.case Let_def raw sn old
      example_lightOrientationMatrix example_lightDistance t example_lightPosition
    by blast
  then show ?thesis using s' r raw p ext by simp
qed

subsection \<open>Resizing the cascade array\<close>

text \<open>
  C5, as stated, fails at the fresh entries: a cascade has one \<^verbatim>\<open>Vector2\<close> and
  six \<^verbatim>\<open>Matrix4\<close>, not seven matrices, and \<^verbatim>\<open>new Matrix4()\<close> is the identity
  matrix, not the zero matrix. Only the interval of a fresh cascade is zero.
\<close>

theorem fresh_cascade_counterexample:
  "store (set_cascadeCount_refs 1 \<lparr>store = [], refs = []\<rparr>) !
     (refs (set_cascadeCount_refs 1 \<lparr>store = [], refs = []\<rparr>) ! 0) = newCascade
   \<and> matrix newCascade = Matrix4 1 0 0 0  0 1 0 0  0 0 1 0  0 0 0 1
   \<and> matrix newCascade \<noteq> Matrix4_zero
   \<and> inverseMatrix newCascade \<noteq> Matrix4_zero
   \<and> projectionMatrix newCascade \<noteq> Matrix4_zero
   \<and> inverseProjectionMatrix newCascade \<noteq> Matrix4_zero
   \<and> viewMatrix newCascade \<noteq> Matrix4_zero
   \<and> inverseViewMatrix newCascade \<noteq> Matrix4_zero
   \<and> interval newCascade = Vector2 0 0"
  by (simp add: set_cascadeCount_refs_eq newCascade_def Matrix4_new_def Matrix4_zero_def
      Vector2_new_def)

text \<open>
  C5, amended: setting \<open>cascadeCount\<close> to \<open>n\<close> leaves an array of \<open>n\<close>
  references; the references below the old and the new count are the same as before
  and no object that existed is changed; shrinking truncates the array and allocates
  nothing; growing appends references to new objects, each with a zero interval
  and six identity matrices; and going from 4 to 2 and back to 4 keeps the first two
  references.
\<close>

theorem set_cascadeCount_identity_stable:
  "length (refs (set_cascadeCount_refs n h)) = n
   \<and> take (min (length (refs h)) n) (refs (set_cascadeCount_refs n h)) =
       take (min (length (refs h)) n) (refs h)
   \<and> take (length (store h)) (store (set_cascadeCount_refs n h)) = store h
   \<and> (\<forall>i. i < min (length (refs h)) n \<and> refs h ! i < length (store h) \<longrightarrow>
        refs (set_cascadeCount_refs n h) ! i = refs h ! i
        \<and> store (set_cascadeCount_refs n h) ! (refs (set_cascadeCount_refs n h) ! i) =
            store h ! (refs h ! i))
   \<and> (n \<le> length (refs h) \<longrightarrow>
        refs (set_cascadeCount_refs n h) = take n (refs h)
        \<and> store (set_cascadeCount_refs n h) = store h)
   \<and> (\<forall>i. length (refs h) \<le> i \<and> i < n \<longrightarrow>
        refs (set_cascadeCount_refs n h) ! i = length (store h) + (i - length (refs h))
        \<and> store (set_cascadeCount_refs n h) ! (refs (set_cascadeCount_refs n h) ! i)
            = newCascade)
   \<and> newCascade =
       \<lparr> interval = Vector2 0 0,
         matrix = Matrix4 1 0 0 0  0 1 0 0  0 0 1 0  0 0 0 1,
         inverseMatrix = Matrix4 1 0 0 0  0 1 0 0  0 0 1 0  0 0 0 1,
         projectionMatrix = Matrix4 1 0 0 0  0 1 0 0  0 0 1 0  0 0 0 1,
         inverseProjectionMatrix = Matrix4 1 0 0 0  0 1 0 0  0 0 1 0  0 0 0 1,
         viewMatrix = Matrix4 1 0 0 0  0 1 0 0  0 0 1 0  0 0 0 1,
         inverseViewMatrix = Matrix4 1 0 0 0  0 1 0 0  0 0 1 0  0 0 0 1 \<rparr>
   \<and> (length (refs h) = 4 \<longrightarrow>
        take 2 (refs (set_cascadeCount_refs 4 (set_cascadeCount_refs 2 h))) = take 2 (refs h))"
proof -
  have len: "length (refs (set_cascadeCount_refs n h)) = n"
    by (simp add: set_cascadeCount_refs_eq)
  have same: "take (min (length (refs h)) n) (refs (set_cascadeCount_refs n h)) =
       take (min (length (refs h)) n) (refs h)"
    by (simp add: set_cascadeCount_refs_eq min_def)
  have prefix: "take (length (store h)) (store (set_cascadeCount_refs n h)) = store h"
    by (simp add: set_cascadeCount_refs_eq)
  have kept: "\<forall>i. i < min (length (refs h)) n \<and> refs h ! i < length (store h) \<longrightarrow>
        refs (set_cascadeCount_refs n h) ! i = refs h ! i
        \<and> store (set_cascadeCount_refs n h) ! (refs (set_cascadeCount_refs n h) ! i) =
            store h ! (refs h ! i)"
    by (auto simp: set_cascadeCount_refs_eq nth_append)
  have shrink: "n \<le> length (refs h) \<longrightarrow>
        refs (set_cascadeCount_refs n h) = take n (refs h)
        \<and> store (set_cascadeCount_refs n h) = store h"
    by (simp add: set_cascadeCount_refs_eq)
  have grow: "\<forall>i. length (refs h) \<le> i \<and> i < n \<longrightarrow>
        refs (set_cascadeCount_refs n h) ! i = length (store h) + (i - length (refs h))
        \<and> store (set_cascadeCount_refs n h) ! (refs (set_cascadeCount_refs n h) ! i)
            = newCascade"
    by (auto simp: set_cascadeCount_refs_eq nth_append)
  have fresh: "newCascade =
       \<lparr> interval = Vector2 0 0,
         matrix = Matrix4 1 0 0 0  0 1 0 0  0 0 1 0  0 0 0 1,
         inverseMatrix = Matrix4 1 0 0 0  0 1 0 0  0 0 1 0  0 0 0 1,
         projectionMatrix = Matrix4 1 0 0 0  0 1 0 0  0 0 1 0  0 0 0 1,
         inverseProjectionMatrix = Matrix4 1 0 0 0  0 1 0 0  0 0 1 0  0 0 0 1,
         viewMatrix = Matrix4 1 0 0 0  0 1 0 0  0 0 1 0  0 0 0 1,
         inverseViewMatrix = Matrix4 1 0 0 0  0 1 0 0  0 0 1 0  0 0 0 1 \<rparr>"
    by (simp add: newCascade_def Vector2_new_def Matrix4_new_def)
  have roundtrip: "length (refs h) = 4 \<longrightarrow>
        take 2 (refs (set_cascadeCount_refs 4 (set_cascadeCount_refs 2 h))) = take 2 (refs h)"
    by (simp add: set_cascadeCount_refs_eq)
  show ?thesis using len same prefix kept shrink grow fresh roundtrip by blast
qed

text \<open>From no cascade to 4, to 2 and back to 4: the references are 0, 1, 4, 5.\<close>

theorem set_cascadeCount_identity_stable_witness:
  "refs (set_cascadeCount_refs 4 \<lparr>store = [], refs = []\<rparr>) = [0, 1, 2, 3]
   \<and> refs (set_cascadeCount_refs 2 (set_cascadeCount_refs 4 \<lparr>store = [], refs = []\<rparr>)) = [0, 1]
   \<and> refs (set_cascadeCount_refs 4 (set_cascadeCount_refs 2
        (set_cascadeCount_refs 4 \<lparr>store = [], refs = []\<rparr>))) = [0, 1, 4, 5]
   \<and> take 2 (refs (set_cascadeCount_refs 4 (set_cascadeCount_refs 2
        (set_cascadeCount_refs 4 \<lparr>store = [], refs = []\<rparr>)))) =
      take 2 (refs (set_cascadeCount_refs 4 \<lparr>store = [], refs = []\<rparr>))
   \<and> store (set_cascadeCount_refs 4 \<lparr>store = [], refs = []\<rparr>) !
        (refs (set_cascadeCount_refs 4 \<lparr>store = [], refs = []\<rparr>) ! 3) = newCascade"
proof -
  have r4: "refs (set_cascadeCount_refs 4 \<lparr>store = [], refs = []\<rparr>) = [0, 1, 2, 3]"
    by (simp add: set_cascadeCount_refs_eq upt_rec)
  have l4: "length (refs (set_cascadeCount_refs 4 \<lparr>store = [], refs = []\<rparr>)) = 4"
    by (simp add: r4)
  have r2: "refs (set_cascadeCount_refs 2 (set_cascadeCount_refs 4 \<lparr>store = [], refs = []\<rparr>))
      = [0, 1]"
    by (simp add: set_cascadeCount_refs_eq upt_rec)
  have r424: "refs (set_cascadeCount_refs 4 (set_cascadeCount_refs 2
        (set_cascadeCount_refs 4 \<lparr>store = [], refs = []\<rparr>))) = [0, 1, 4, 5]"
    by (simp add: set_cascadeCount_refs_eq upt_rec)
  note t = set_cascadeCount_identity_stable
    [of 4 "\<lparr>store = [], refs = []\<rparr>"]
  note u = set_cascadeCount_identity_stable
    [of 4 "set_cascadeCount_refs 4 \<lparr>store = [], refs = []\<rparr>"]
  have roundtrip: "take 2 (refs (set_cascadeCount_refs 4 (set_cascadeCount_refs 2
        (set_cascadeCount_refs 4 \<lparr>store = [], refs = []\<rparr>)))) =
      take 2 (refs (set_cascadeCount_refs 4 \<lparr>store = [], refs = []\<rparr>))"
    using u l4 by blast
  have "\<forall>i. length (refs \<lparr>store = [], refs = []\<rparr>) \<le> i \<and> i < 4 \<longrightarrow>
        store (set_cascadeCount_refs 4 \<lparr>store = [], refs = []\<rparr>) !
          (refs (set_cascadeCount_refs 4 \<lparr>store = [], refs = []\<rparr>) ! i) = newCascade"
    using t by blast
  from this [rule_format, of 3]
  have new: "store (set_cascadeCount_refs 4 \<lparr>store = [], refs = []\<rparr>) !
        (refs (set_cascadeCount_refs 4 \<lparr>store = [], refs = []\<rparr>) ! 3) = newCascade"
    by simp
  show ?thesis using r4 r2 r424 roundtrip new by blast
qed

subsection \<open>The dirty flag\<close>

text \<open>
  C4, as stated, fails in both variants. In \<open>CascadedShadowMaps\<close> the setter of
  \<open>mapSize\<close> compares the old and the new value and writes the new size to the
  lights, but never sets \<open>needsUpdateFrusta\<close>: changing the size from 2048 to 1024
  leaves a clean object clean. In \<open>CascadedShadows\<close> nothing is ever marked dirty
  and \<open>update\<close> recomputes regardless: after setting \<open>cascadeCount\<close> to its
  current value 1, which changes nothing, \<open>update\<close> replaces the projection matrix
  the cascade held by the one fitted to the frustum.
\<close>

theorem mapSize_not_dirty_counterexample:
  "csm_mapSize exampleShadowMaps = 2048
   \<and> \<not> needsUpdateFrusta exampleShadowMaps
   \<and> csm_set_mapSize 1024 exampleShadowMaps \<noteq> exampleShadowMaps
   \<and> map shadow_mapSize (cascadedLights (directionalLights
        (csm_set_mapSize 1024 exampleShadowMaps))) =
       [Vector2 1024 1024, Vector2 1024 1024, Vector2 1024 1024, Vector2 1024 1024]
   \<and> \<not> needsUpdateFrusta (csm_set_mapSize 1024 exampleShadowMaps)
   \<and> set_cascadeCount 1 exampleShadows = exampleShadows
   \<and> projectionMatrix (cascades (set_cascadeCount 1 exampleShadows) ! 0) = Matrix4_new
   \<and> \<not> isl (update (\<lambda>c f. exampleFrustum) (\<lambda>p. Vector3 0 0 1) exampleCamera exampleSun
              (set_cascadeCount 1 exampleShadows))
   \<and> projectionMatrix (cascades (projr (update (\<lambda>c f. exampleFrustum) (\<lambda>p. Vector3 0 0 1)
        exampleCamera exampleSun (set_cascadeCount 1 exampleShadows))) ! 0) =
       Matrix4 (2 / 31) 0 0 0  0 (2 / 31) 0 0  0 0 (- (2 / 33)) 0  0 0 (- (31 / 33)) 1"
proof -
  have lights: "csm_mapSize exampleShadowMaps = 2048
   \<and> \<not> needsUpdateFrusta exampleShadowMaps
   \<and> csm_set_mapSize 1024 exampleShadowMaps \<noteq> exampleShadowMaps
   \<and> map shadow_mapSize (cascadedLights (directionalLights
        (csm_set_mapSize 1024 exampleShadowMaps))) =
       [Vector2 1024 1024, Vector2 1024 1024, Vector2 1024 1024, Vector2 1024 1024]
   \<and> \<not> needsUpdateFrusta (csm_set_mapSize 1024 exampleShadowMaps)"
    by (simp add: csm_set_mapSize_def csm_mapSize_def exampleShadowMaps_def exampleLight_def)
  have same: "set_cascadeCount 1 exampleShadows = exampleShadows"
    by (simp add: set_cascadeCount_def cascadeCount_def exampleShadows_def)
  have stale: "projectionMatrix (cascades exampleShadows ! 0) = Matrix4_new"
    by (simp add: exampleShadows_def newCascade_def)
  obtain s' where s': "update (\<lambda>c f. exampleFrustum) (\<lambda>p. Vector3 0 0 1) exampleCamera
      exampleSun exampleShadows = Inr s'"
    and p: "projectionMatrix (cascades s' ! 0) =
         Matrix4 (2 / 31) 0 0 0  0 (2 / 31) 0 0  0 0 (- (2 / 33)) 0  0 0 (- (31 / 33)) 1"
    using example_update by blast
  show ?thesis
    unfolding same using lights stale s' p by simp
qed

text \<open>
  C4, amended. In \<open>CascadedShadowMaps\<close> the setters of \<open>far\<close>, \<open>mode\<close>,
  \<open>lambda\<close>, \<open>margin\<close>, \<open>fade\<close>, \<open>disableLastCascadeCutoff\<close> and
  \<open>cascadeCount\<close> leave the object as it is for a value equal to the current one,
  and store a different value and set \<open>needsUpdateFrusta\<close>; the setter of
  \<open>mapSize\<close> leaves the object as it is for an equal value and never touches the
  flag; \<open>update\<close> recomputes the frusta when the flag is set, after clearing it,
  and not otherwise. \<open>CascadedShadows\<close> has no flag: its only setter,
  \<open>cascadeCount\<close>, leaves the object as it is for the current count, and its
  \<open>update\<close> recomputes everything on every call, so that two objects with the same
  configuration, the same number of cascades and the same four elements that
  \<open>lookAt\<close> and \<open>setPosition\<close> leave in each \<open>inverseViewMatrix\<close> have the
  same state after \<open>update\<close>, whatever else they held before. In
  \<open>CloudsShadowMaterial\<close>, the setter of \<open>cascadeCount\<close> leaves the material as
  it is for the current count and otherwise stores the count and sets
  \<open>needsUpdate\<close>.
\<close>

theorem dirty_discipline:
  "(vfar = csm_far s \<longrightarrow> csm_set_far vfar s = s)
   \<and> (vfar \<noteq> csm_far s \<longrightarrow>
        needsUpdateFrusta (csm_set_far vfar s) \<and> csm_far (csm_set_far vfar s) = vfar)
   \<and> (vmode = csm_mode s \<longrightarrow> csm_set_mode vmode s = s)
   \<and> (vmode \<noteq> csm_mode s \<longrightarrow>
        needsUpdateFrusta (csm_set_mode vmode s) \<and> csm_mode (csm_set_mode vmode s) = vmode)
   \<and> (vlambda = csm_lambda s \<longrightarrow> csm_set_lambda vlambda s = s)
   \<and> (vlambda \<noteq> csm_lambda s \<longrightarrow>
        needsUpdateFrusta (csm_set_lambda vlambda s) \<and> csm_lambda (csm_set_lambda vlambda s) = vlambda)
   \<and> (vmargin = csm_margin s \<longrightarrow> csm_set_margin vmargin s = s)
   \<and> (vmargin \<noteq> csm_margin s \<longrightarrow>
        needsUpdateFrusta (csm_set_margin vmargin s) \<and> csm_margin (csm_set_margin vmargin s) = vmargin)
   \<and> (vfade = csm_fade s \<longrightarrow> csm_set_fade vfade s = s)
   \<and> (vfade \<noteq> csm_fade s \<longrightarrow>
        needsUpdateFrusta (csm_set_fade vfade s) \<and> csm_fade (csm_set_fade vfade s) = vfade)
   \<and> (vcutoff = csm_disableLastCascadeCutoff s \<longrightarrow> csm_set_disableLastCascadeCutoff vcutoff s = s)
   \<and> (vcutoff \<noteq> csm_disableLastCascadeCutoff s \<longrightarrow>
        needsUpdateFrusta (csm_set_disableLastCascadeCutoff vcutoff s)
        \<and> csm_disableLastCascadeCutoff (csm_set_disableLastCascadeCutoff vcutoff s) = vcutoff)
   \<and> (vcount = csm_cascadeCount s \<longrightarrow> csm_set_cascadeCount setCount vcount s = s)
   \<and> (vcount \<noteq> csm_cascadeCount s \<longrightarrow>
        needsUpdateFrusta (csm_set_cascadeCount setCount vcount s)
        \<and> directionalLights (csm_set_cascadeCount setCount vcount s) =
            setCount vcount (directionalLights s))
   \<and> (vsize = csm_mapSize s \<longrightarrow> csm_set_mapSize vsize s = s)
   \<and> needsUpdateFrusta (csm_set_mapSize vsize s) = needsUpdateFrusta s
   \<and> (\<not> needsUpdateFrusta s \<longrightarrow> csm_update updateFrusta placeLights s = placeLights s)
   \<and> (needsUpdateFrusta s \<longrightarrow>
        csm_update updateFrusta placeLights s =
          placeLights (updateFrusta (s\<lparr>needsUpdateFrusta := False\<rparr>)))
   \<and> (n = cascadeCount c \<longrightarrow> set_cascadeCount n c = c)
   \<and> cascadeCount (set_cascadeCount n c) = n
   \<and> (cascadeSize c = cascadeSize c' \<and> far c = far c' \<and> mode c = mode c'
        \<and> lambda c = lambda c' \<and> margin c = margin c' \<and> fade c = fade c'
        \<and> length (cascades c) = length (cascades c')
        \<and> (\<forall>i < length (cascades c).
              te3 (inverseViewMatrix (cascades c ! i)) = te3 (inverseViewMatrix (cascades c' ! i))
            \<and> te7 (inverseViewMatrix (cascades c ! i)) = te7 (inverseViewMatrix (cascades c' ! i))
            \<and> te11 (inverseViewMatrix (cascades c ! i)) = te11 (inverseViewMatrix (cascades c' ! i))
            \<and> te15 (inverseViewMatrix (cascades c ! i)) = te15 (inverseViewMatrix (cascades c' ! i)))
        \<longrightarrow> update setFromCamera getSurfaceNormal camera sunDirection c =
              update setFromCamera getSurfaceNormal camera sunDirection c')
   \<and> (Some k = defines_CASCADE_COUNT m \<longrightarrow> material_set_cascadeCount k m = m)
   \<and> (Some k \<noteq> defines_CASCADE_COUNT m \<longrightarrow>
        needsUpdate (material_set_cascadeCount k m)
        \<and> defines_CASCADE_COUNT (material_set_cascadeCount k m) = Some k)"
proof (intro conjI)
  show "cascadeSize c = cascadeSize c' \<and> far c = far c' \<and> mode c = mode c'
        \<and> lambda c = lambda c' \<and> margin c = margin c' \<and> fade c = fade c'
        \<and> length (cascades c) = length (cascades c')
        \<and> (\<forall>i < length (cascades c).
              te3 (inverseViewMatrix (cascades c ! i)) = te3 (inverseViewMatrix (cascades c' ! i))
            \<and> te7 (inverseViewMatrix (cascades c ! i)) = te7 (inverseViewMatrix (cascades c' ! i))
            \<and> te11 (inverseViewMatrix (cascades c ! i)) = te11 (inverseViewMatrix (cascades c' ! i))
            \<and> te15 (inverseViewMatrix (cascades c ! i)) = te15 (inverseViewMatrix (cascades c' ! i)))
        \<longrightarrow> update setFromCamera getSurfaceNormal camera sunDirection c =
              update setFromCamera getSurfaceNormal camera sunDirection c'"
    using update_recomputes [of c c' setFromCamera getSurfaceNormal camera sunDirection] by blast
  show "cascadeCount (set_cascadeCount n c) = n"
    by (simp add: cascadeCount_def set_cascadeCount_eq)
qed (simp_all add: csm_set_far_def csm_set_mode_def csm_set_lambda_def csm_set_margin_def
      csm_set_fade_def csm_set_disableLastCascadeCutoff_def csm_set_cascadeCount_def
      csm_set_mapSize_def csm_update_def set_cascadeCount_def material_set_cascadeCount_def)

text \<open>
  Every setter at the example with its current value and with another one; a clean
  and a dirty \<open>update\<close>; and \<open>update\<close> on the example with stale frusta and splits.
\<close>

theorem dirty_discipline_witness:
  "csm_set_far 5000 exampleShadowMaps = exampleShadowMaps
   \<and> csm_set_mode Practical exampleShadowMaps = exampleShadowMaps
   \<and> csm_set_lambda (1 / 2) exampleShadowMaps = exampleShadowMaps
   \<and> csm_set_margin 200 exampleShadowMaps = exampleShadowMaps
   \<and> csm_set_fade True exampleShadowMaps = exampleShadowMaps
   \<and> csm_set_disableLastCascadeCutoff False exampleShadowMaps = exampleShadowMaps
   \<and> csm_set_cascadeCount (\<lambda>n l. l\<lparr>cascadedLights := replicate n exampleLight\<rparr>) 4
        exampleShadowMaps = exampleShadowMaps
   \<and> csm_set_mapSize 2048 exampleShadowMaps = exampleShadowMaps
   \<and> csm_update (\<lambda>s. s\<lparr>csm_far := 0\<rparr>) (\<lambda>s. s) exampleShadowMaps = exampleShadowMaps
   \<and> needsUpdateFrusta (csm_set_far 100 exampleShadowMaps)
   \<and> needsUpdateFrusta (csm_set_mode Uniform exampleShadowMaps)
   \<and> needsUpdateFrusta (csm_set_lambda 1 exampleShadowMaps)
   \<and> needsUpdateFrusta (csm_set_margin 0 exampleShadowMaps)
   \<and> needsUpdateFrusta (csm_set_fade False exampleShadowMaps)
   \<and> needsUpdateFrusta (csm_set_disableLastCascadeCutoff True exampleShadowMaps)
   \<and> needsUpdateFrusta (csm_set_cascadeCount
        (\<lambda>n l. l\<lparr>cascadedLights := replicate n exampleLight\<rparr>) 2 exampleShadowMaps)
   \<and> csm_update (\<lambda>s. s\<lparr>csm_far := 0\<rparr>) (\<lambda>s. s) (csm_set_margin 0 exampleShadowMaps) =
       exampleShadowMaps\<lparr>csm_margin := 0, csm_far := 0\<rparr>
   \<and> set_cascadeCount 1 exampleShadows = exampleShadows
   \<and> cascadeCount (set_cascadeCount 3 exampleShadows) = 3
   \<and> update (\<lambda>c f. exampleFrustum) (\<lambda>p. Vector3 0 0 1) exampleCamera exampleSun
        (exampleShadows\<lparr>frusta := [exampleFrustum, exampleFrustum], splits := [7]\<rparr>) =
      update (\<lambda>c f. exampleFrustum) (\<lambda>p. Vector3 0 0 1) exampleCamera exampleSun exampleShadows
   \<and> material_set_cascadeCount 4 \<lparr>defines_CASCADE_COUNT = Some 4, needsUpdate = False\<rparr> =
       \<lparr>defines_CASCADE_COUNT = Some 4, needsUpdate = False\<rparr>
   \<and> material_set_cascadeCount 2 \<lparr>defines_CASCADE_COUNT = Some 4, needsUpdate = False\<rparr> =
       \<lparr>defines_CASCADE_COUNT = Some 2, needsUpdate = True\<rparr>"
proof -
  note same = dirty_discipline
    [of 5000 exampleShadowMaps Practical "1 / 2" 200 True False 4
      "\<lambda>n l. l\<lparr>cascadedLights := replicate n exampleLight\<rparr>" 2048
      "\<lambda>s. s\<lparr>csm_far := 0\<rparr>" "\<lambda>s. s" 1 exampleShadows
      "exampleShadows\<lparr>frusta := [exampleFrustum, exampleFrustum], splits := [7]\<rparr>"
      "\<lambda>c f. exampleFrustum" "\<lambda>p. Vector3 0 0 1" exampleCamera exampleSun
      4 "\<lparr>defines_CASCADE_COUNT = Some 4, needsUpdate = False\<rparr>"]
  note other = dirty_discipline
    [of 100 exampleShadowMaps Uniform 1 0 False True 2
      "\<lambda>n l. l\<lparr>cascadedLights := replicate n exampleLight\<rparr>" 1024
      "\<lambda>s. s\<lparr>csm_far := 0\<rparr>" "\<lambda>s. s" 3 exampleShadows
      "exampleShadows\<lparr>frusta := [exampleFrustum, exampleFrustum], splits := [7]\<rparr>"
      "\<lambda>c f. exampleFrustum" "\<lambda>p. Vector3 0 0 1" exampleCamera exampleSun
      2 "\<lparr>defines_CASCADE_COUNT = Some 4, needsUpdate = False\<rparr>"]
  note dirty = dirty_discipline
    [of 100 "csm_set_margin 0 exampleShadowMaps" Uniform 1 0 False True 2
      "\<lambda>n l. l\<lparr>cascadedLights := replicate n exampleLight\<rparr>" 1024
      "\<lambda>s. s\<lparr>csm_far := 0\<rparr>" "\<lambda>s. s" 3 exampleShadows
      "exampleShadows\<lparr>frusta := [exampleFrustum, exampleFrustum], splits := [7]\<rparr>"
      "\<lambda>c f. exampleFrustum" "\<lambda>p. Vector3 0 0 1" exampleCamera exampleSun
      2 "\<lparr>defines_CASCADE_COUNT = Some 4, needsUpdate = False\<rparr>"]
  have cur: "csm_far exampleShadowMaps = 5000" "csm_mode exampleShadowMaps = Practical"
    "csm_lambda exampleShadowMaps = 1 / 2" "csm_margin exampleShadowMaps = 200"
    "csm_fade exampleShadowMaps" "\<not> csm_disableLastCascadeCutoff exampleShadowMaps"
    "csm_cascadeCount exampleShadowMaps = 4" "csm_mapSize exampleShadowMaps = 2048"
    "\<not> needsUpdateFrusta exampleShadowMaps"
    by (simp_all add: exampleShadowMaps_def exampleLight_def csm_cascadeCount_def csm_mapSize_def)
  have ex: "cascadeCount exampleShadows = 1" "length (cascades exampleShadows) = 1"
    by (simp_all add: exampleShadows_def cascadeCount_def)
  have m: "csm_set_margin 0 exampleShadowMaps =
      exampleShadowMaps\<lparr>csm_margin := 0, needsUpdateFrusta := True\<rparr>"
    by (simp add: csm_set_margin_def cur)
  have d: "csm_update (\<lambda>s. s\<lparr>csm_far := 0\<rparr>) (\<lambda>s. s) (csm_set_margin 0 exampleShadowMaps) =
       exampleShadowMaps\<lparr>csm_margin := 0, csm_far := 0\<rparr>"
    using dirty unfolding m by (simp add: exampleShadowMaps_def)
  show ?thesis
    using same other d cur ex by simp
qed

end
